theory Spec2Isabelle
  imports Complex_Main "HOL-Library.Word" "HOL-Library.AList"
begin

unbundle bit_operations_syntax

section \<open>The Prosilica area-detector driver (prosilica.cpp)\<close>

text \<open>
  A shallow embedding of the driver class \<open>prosilica\<close>. The driver sits between three
  libraries that are not part of this repository: the vendor's PvApi (camera handle,
  attribute get and set, capture queue), the areaDetector base classes (parameter
  library, NDArray and NDArrayPool, shutter control) and EPICS base (time stamps, lock).
  What the driver computes is modelled as functions on an explicit state; what the
  libraries answer is an argument of the model, and every call into them that has an
  effect outside the driver is appended to a trace.

  C \<open>int\<close>, \<open>epicsInt32\<close> and \<open>tPvUint32\<close> are 32-bit words. Arithmetic wraps; a signed
  comparison is written with \<open>sint\<close>. The \<open>unsigned long\<close> fields of a frame are natural
  numbers. A \<open>double\<close> is modelled as a real number: rounding is not modelled.
  asynPrint and printf are not modelled.
\<close>

subsection \<open>Constants of the libraries\<close>

type_synonym epicsInt32 = "32 word"
type_synonym tPvUint32 = "32 word"
type_synonym tPvErr = "32 word"
type_synonym double = real

abbreviation (input) ePvErrSuccess :: tPvErr where "ePvErrSuccess \<equiv> 0"
abbreviation (input) ePvErrNotFound :: tPvErr where "ePvErrNotFound \<equiv> 6"
abbreviation (input) ePvErrCancelled :: tPvErr where "ePvErrCancelled \<equiv> 14"
abbreviation (input) ePvErrDataMissing :: tPvErr where "ePvErrDataMissing \<equiv> 16"

abbreviation (input) asynSuccess :: "32 word" where "asynSuccess \<equiv> 0"
abbreviation (input) asynError :: "32 word" where "asynError \<equiv> 3"

abbreviation (input) ePvAccessMaster :: "32 word" where "ePvAccessMaster \<equiv> 4"

datatype tPvImageFormat =
    ePvFmtMono8 | ePvFmtMono16 | ePvFmtBayer8 | ePvFmtBayer16 | ePvFmtRgb24 | ePvFmtRgb48
  | ePvFmtYuv411 | ePvFmtYuv422 | ePvFmtYuv444 | ePvFmtBgr24 | ePvFmtRgba32 | ePvFmtBgra32
  | ePvFmtMono12Packed | ePvFmtBayer12Packed

text \<open>tPvBayerPattern is an unsigned 32-bit enumeration with four named values.\<close>

abbreviation (input) ePvBayerRGGB :: "32 word" where "ePvBayerRGGB \<equiv> 0"
abbreviation (input) ePvBayerGBRG :: "32 word" where "ePvBayerGBRG \<equiv> 1"
abbreviation (input) ePvBayerGRBG :: "32 word" where "ePvBayerGRBG \<equiv> 2"
abbreviation (input) ePvBayerBGGR :: "32 word" where "ePvBayerBGGR \<equiv> 3"

abbreviation (input) NDInt8 :: epicsInt32 where "NDInt8 \<equiv> 0"
abbreviation (input) NDUInt8 :: epicsInt32 where "NDUInt8 \<equiv> 1"
abbreviation (input) NDUInt16 :: epicsInt32 where "NDUInt16 \<equiv> 3"

abbreviation (input) NDColorModeMono :: epicsInt32 where "NDColorModeMono \<equiv> 0"
abbreviation (input) NDColorModeBayer :: epicsInt32 where "NDColorModeBayer \<equiv> 1"
abbreviation (input) NDColorModeRGB1 :: epicsInt32 where "NDColorModeRGB1 \<equiv> 2"
abbreviation (input) NDColorModeRGB2 :: epicsInt32 where "NDColorModeRGB2 \<equiv> 3"
abbreviation (input) NDColorModeRGB3 :: epicsInt32 where "NDColorModeRGB3 \<equiv> 4"

abbreviation (input) ADImageSingle :: epicsInt32 where "ADImageSingle \<equiv> 0"
abbreviation (input) ADImageMultiple :: epicsInt32 where "ADImageMultiple \<equiv> 1"
abbreviation (input) ADImageContinuous :: epicsInt32 where "ADImageContinuous \<equiv> 2"

abbreviation (input) ADStatusIdle :: epicsInt32 where "ADStatusIdle \<equiv> 0"
abbreviation (input) ADStatusAcquire :: epicsInt32 where "ADStatusAcquire \<equiv> 1"

subsection \<open>Constants of the driver\<close>

abbreviation (input) MAX_PVAPI_FRAMES :: epicsInt32 where "MAX_PVAPI_FRAMES \<equiv> 2"
abbreviation (input) MAX_PACKET_SIZE :: nat where "MAX_PACKET_SIZE \<equiv> 8228"
abbreviation (input) CONNECT_RETRY_COUNT :: "32 word" where "CONNECT_RETRY_COUNT \<equiv> 30"
abbreviation (input) CONNECT_RETRY_INTERVAL :: nat where "CONNECT_RETRY_INTERVAL \<equiv> 1"

text \<open>PSTimestampType_t and PSBayerConvert_t, as the integers the parameter library holds.\<close>

abbreviation (input) PSTimestampTypeNativeTicks :: epicsInt32 where "PSTimestampTypeNativeTicks \<equiv> 0"
abbreviation (input) PSTimestampTypeNativeSeconds :: epicsInt32 where "PSTimestampTypeNativeSeconds \<equiv> 1"
abbreviation (input) PSTimestampTypePOSIX :: epicsInt32 where "PSTimestampTypePOSIX \<equiv> 2"
abbreviation (input) PSTimestampTypeEPICS :: epicsInt32 where "PSTimestampTypeEPICS \<equiv> 3"
abbreviation (input) PSTimestampTypeIOC :: epicsInt32 where "PSTimestampTypeIOC \<equiv> 4"

abbreviation (input) PSBayerConvertNone :: epicsInt32 where "PSBayerConvertNone \<equiv> 0"
abbreviation (input) PSBayerConvertRGB1 :: epicsInt32 where "PSBayerConvertRGB1 \<equiv> 1"
abbreviation (input) PSBayerConvertRGB2 :: epicsInt32 where "PSBayerConvertRGB2 \<equiv> 2"
abbreviation (input) PSBayerConvertRGB3 :: epicsInt32 where "PSBayerConvertRGB3 \<equiv> 3"

subsection \<open>Data\<close>

text \<open>
  A parameter of the parameter library is the index that \<open>createParam\<close> returned for
  it. The base classes create theirs first, then the constructor of the driver creates
  \<open>PSReadStatistics\<close> to \<open>PSStrobe1Duration\<close> in this order; the numbers below keep
  that order and are otherwise arbitrary.
\<close>

type_synonym param = nat

abbreviation (input) NDArraySizeX :: param where "NDArraySizeX \<equiv> 0"
abbreviation (input) NDArraySizeY :: param where "NDArraySizeY \<equiv> 1"
abbreviation (input) NDArraySize :: param where "NDArraySize \<equiv> 2"
abbreviation (input) NDDataType :: param where "NDDataType \<equiv> 3"
abbreviation (input) NDColorMode :: param where "NDColorMode \<equiv> 4"
abbreviation (input) NDArrayCounter :: param where "NDArrayCounter \<equiv> 5"
abbreviation (input) NDArrayCallbacks :: param where "NDArrayCallbacks \<equiv> 6"
abbreviation (input) NDDriverVersion :: param where "NDDriverVersion \<equiv> 7"
abbreviation (input) ADManufacturer :: param where "ADManufacturer \<equiv> 8"
abbreviation (input) ADModel :: param where "ADModel \<equiv> 9"
abbreviation (input) ADSerialNumber :: param where "ADSerialNumber \<equiv> 10"
abbreviation (input) ADFirmwareVersion :: param where "ADFirmwareVersion \<equiv> 11"
abbreviation (input) ADSDKVersion :: param where "ADSDKVersion \<equiv> 12"
abbreviation (input) ADGain :: param where "ADGain \<equiv> 13"
abbreviation (input) ADBinX :: param where "ADBinX \<equiv> 14"
abbreviation (input) ADBinY :: param where "ADBinY \<equiv> 15"
abbreviation (input) ADMinX :: param where "ADMinX \<equiv> 16"
abbreviation (input) ADMinY :: param where "ADMinY \<equiv> 17"
abbreviation (input) ADSizeX :: param where "ADSizeX \<equiv> 18"
abbreviation (input) ADSizeY :: param where "ADSizeY \<equiv> 19"
abbreviation (input) ADMaxSizeX :: param where "ADMaxSizeX \<equiv> 20"
abbreviation (input) ADMaxSizeY :: param where "ADMaxSizeY \<equiv> 21"
abbreviation (input) ADImageMode :: param where "ADImageMode \<equiv> 22"
abbreviation (input) ADTriggerMode :: param where "ADTriggerMode \<equiv> 23"
abbreviation (input) ADNumExposures :: param where "ADNumExposures \<equiv> 24"
abbreviation (input) ADNumImages :: param where "ADNumImages \<equiv> 25"
abbreviation (input) ADAcquireTime :: param where "ADAcquireTime \<equiv> 26"
abbreviation (input) ADAcquirePeriod :: param where "ADAcquirePeriod \<equiv> 27"
abbreviation (input) ADStatus :: param where "ADStatus \<equiv> 28"
abbreviation (input) ADAcquire :: param where "ADAcquire \<equiv> 29"

abbreviation (input) PSReadStatistics :: param where "PSReadStatistics \<equiv> 100"
abbreviation (input) PSBayerConvert :: param where "PSBayerConvert \<equiv> 101"
abbreviation (input) PSGainMode :: param where "PSGainMode \<equiv> 102"
abbreviation (input) PSExposureMode :: param where "PSExposureMode \<equiv> 103"
abbreviation (input) PSDriverType :: param where "PSDriverType \<equiv> 104"
abbreviation (input) PSFilterVersion :: param where "PSFilterVersion \<equiv> 105"
abbreviation (input) PSTimestampType :: param where "PSTimestampType \<equiv> 106"
abbreviation (input) PSResetTimer :: param where "PSResetTimer \<equiv> 107"
abbreviation (input) PSFrameRate :: param where "PSFrameRate \<equiv> 108"
abbreviation (input) PSByteRate :: param where "PSByteRate \<equiv> 109"
abbreviation (input) PSPacketSize :: param where "PSPacketSize \<equiv> 110"
abbreviation (input) PSFramesCompleted :: param where "PSFramesCompleted \<equiv> 111"
abbreviation (input) PSFramesDropped :: param where "PSFramesDropped \<equiv> 112"
abbreviation (input) PSPacketsErroneous :: param where "PSPacketsErroneous \<equiv> 113"
abbreviation (input) PSPacketsMissed :: param where "PSPacketsMissed \<equiv> 114"
abbreviation (input) PSPacketsReceived :: param where "PSPacketsReceived \<equiv> 115"
abbreviation (input) PSPacketsRequested :: param where "PSPacketsRequested \<equiv> 116"
abbreviation (input) PSPacketsResent :: param where "PSPacketsResent \<equiv> 117"
abbreviation (input) PSBadFrameCounter :: param where "PSBadFrameCounter \<equiv> 118"
abbreviation (input) PSTriggerDelay :: param where "PSTriggerDelay \<equiv> 119"
abbreviation (input) PSTriggerEvent :: param where "PSTriggerEvent \<equiv> 120"
abbreviation (input) PSTriggerOverlap :: param where "PSTriggerOverlap \<equiv> 121"
abbreviation (input) PSTriggerSoftware :: param where "PSTriggerSoftware \<equiv> 122"
abbreviation (input) PSSyncIn1Level :: param where "PSSyncIn1Level \<equiv> 123"
abbreviation (input) PSSyncIn2Level :: param where "PSSyncIn2Level \<equiv> 124"
abbreviation (input) PSSyncOut1Mode :: param where "PSSyncOut1Mode \<equiv> 125"
abbreviation (input) PSSyncOut1Level :: param where "PSSyncOut1Level \<equiv> 126"
abbreviation (input) PSSyncOut1Invert :: param where "PSSyncOut1Invert \<equiv> 127"
abbreviation (input) PSSyncOut2Mode :: param where "PSSyncOut2Mode \<equiv> 128"
abbreviation (input) PSSyncOut2Level :: param where "PSSyncOut2Level \<equiv> 129"
abbreviation (input) PSSyncOut2Invert :: param where "PSSyncOut2Invert \<equiv> 130"
abbreviation (input) PSSyncOut3Mode :: param where "PSSyncOut3Mode \<equiv> 131"
abbreviation (input) PSSyncOut3Level :: param where "PSSyncOut3Level \<equiv> 132"
abbreviation (input) PSSyncOut3Invert :: param where "PSSyncOut3Invert \<equiv> 133"
abbreviation (input) PSStrobe1Mode :: param where "PSStrobe1Mode \<equiv> 134"
abbreviation (input) PSStrobe1Delay :: param where "PSStrobe1Delay \<equiv> 135"
abbreviation (input) PSStrobe1CtlDuration :: param where "PSStrobe1CtlDuration \<equiv> 136"
abbreviation (input) PSStrobe1Duration :: param where "PSStrobe1Duration \<equiv> 137"

abbreviation (input) FIRST_PS_PARAM :: param where "FIRST_PS_PARAM \<equiv> PSReadStatistics"

record epicsTimeStamp =
  secPastEpoch :: "32 word"
  nsec :: "32 word"

record timespec =
  tv_sec :: int
  tv_nsec :: int

record NDDimension_t =
  dsize :: nat
  doffset :: nat
  dbinning :: epicsInt32
  dreverse :: epicsInt32

text \<open>
  The value of an NDArray attribute. \<open>NDAttrIndeterminate\<close> is what \<open>add\<close> copies when
  it is given the address of a local variable that was never assigned.
\<close>

datatype NDAttrValue =
  NDAttrInt32 epicsInt32 | NDAttrFloat64 double | NDAttrString string | NDAttrIndeterminate

text \<open>
  An NDArray: \<open>addr\<close> is the address of the object (its identity in the pool),
  \<open>pData\<close> the address of its pixel data. The pixel data is not modelled.
\<close>

record NDArray =
  addr :: nat
  pData :: nat
  uniqueId :: "32 word"
  epicsTS :: epicsTimeStamp
  timeStamp :: double
  dataType :: epicsInt32
  ndims :: epicsInt32
  dims :: "nat \<Rightarrow> NDDimension_t"
  pAttributeList :: "(string \<times> NDAttrValue) list"

text \<open>
  A tPvFrame, one slot of \<open>PvFrames\<close>. \<open>Context1\<close> is \<open>Context[1]\<close>, the NDArray bound to
  the slot (\<open>None\<close> is the null pointer); \<open>Context[0]\<close> is the driver and is not modelled.
  The fields from \<open>Status\<close> on are filled in by the vendor library before the callback.
\<close>

record tPvFrame =
  ImageBuffer :: "nat option"
  ImageBufferSize :: epicsInt32
  Context1 :: "NDArray option"
  Status :: tPvErr
  Format :: tPvImageFormat
  Width :: nat
  Height :: nat
  RegionX :: nat
  RegionY :: nat
  BayerPattern :: "32 word"
  FrameCount :: nat
  TimestampLo :: nat
  TimestampHi :: nat

record tPvCameraInfoEx =
  UniqueId :: nat
  PermittedAccess :: "32 word"
  ModelName :: string
  SerialNumber :: string
  FirmwareVersion :: string

text \<open>What the driver does that is visible outside it, in the order it happens.\<close>

datatype event =
    Lock | Unlock
  | Release nat
  | ColorInterpolate int int int nat nat
  | DoCallbacksGenericPointer NDArray
  | SetShutter epicsInt32
  | ParamWrite param
  | CallParamCallbacks
  | CaptureQueueFrame nat
  | CaptureQueueClear | CaptureEnd | CameraClose
  | CameraInfoPoll
  | CameraOpen
  | CaptureAdjustPacketSize nat
  | CaptureStart
  | ThreadSleep nat
  | CommandRun string
  | AttrGet string
  | AttrUint32Set string tPvUint32
  | ExceptionConnect | ExceptionDisconnect
  | GetCurrentTime

text \<open>
  The state of one driver object, with the state of the base classes it uses:
  \<open>iparams\<close>, \<open>dparams\<close> and \<open>sparams\<close> are the parameter library (every parameter the
  driver uses is created by a constructor, so a get or set of it returns asynSuccess),
  \<open>cameraUniqueId\<close> is the member \<open>uniqueId\<close> and \<open>maxPvAPIFrames\<close> the member of that
  name with an underscore, \<open>pArrays0\<close> is \<open>pArrays[0]\<close>, the last good image,
  \<open>driverAttributes\<close> is the attribute list of asynNDArrayDriver. \<open>pool\<close> stands for the NDArrayPool: the results of the
  coming calls of \<open>alloc\<close>, in order, \<open>None\<close> for a null pointer. \<open>PvApiInitialized\<close> is
  the file's static flag.
\<close>

record prosilica =
  PvApiInitialized :: bool
  PvHandle :: "nat option"
  cameraId :: string
  uniqueIP :: nat
  cameraUniqueId :: nat
  PvCameraInfo :: tPvCameraInfoEx
  PvFrames :: "tPvFrame list"
  maxFrameSize :: epicsInt32
  maxPvAPIFrames :: epicsInt32
  framesRemaining :: epicsInt32
  sensorType :: string
  IPAddress :: string
  sensorBits :: tPvUint32
  sensorWidth :: tPvUint32
  sensorHeight :: tPvUint32
  timeStampFrequency :: tPvUint32
  lastSyncTime :: epicsTimeStamp
  iparams :: "param \<Rightarrow> epicsInt32"
  dparams :: "param \<Rightarrow> double"
  sparams :: "param \<Rightarrow> string"
  pArrays0 :: "NDArray option"
  driverAttributes :: "(string \<times> NDAttrValue) list"
  pool :: "NDArray option list"
  trace :: "event list"

text \<open>The faults of the C program: a fault ends the process.\<close>

datatype fault = NullDereference | InvalidFramePointer

subsection \<open>The base classes\<close>

definition emit :: "event \<Rightarrow> prosilica \<Rightarrow> prosilica" where
  "emit e st = st\<lparr>trace := trace st @ [e]\<rparr>"

definition setIntegerParam :: "param \<Rightarrow> epicsInt32 \<Rightarrow> prosilica \<Rightarrow> prosilica" where
  "setIntegerParam p v st = st\<lparr>iparams := (iparams st)(p := v), trace := trace st @ [ParamWrite p]\<rparr>"

definition setDoubleParam :: "param \<Rightarrow> double \<Rightarrow> prosilica \<Rightarrow> prosilica" where
  "setDoubleParam p v st = st\<lparr>dparams := (dparams st)(p := v), trace := trace st @ [ParamWrite p]\<rparr>"

definition setStringParam :: "param \<Rightarrow> string \<Rightarrow> prosilica \<Rightarrow> prosilica" where
  "setStringParam p v st = st\<lparr>sparams := (sparams st)(p := v), trace := trace st @ [ParamWrite p]\<rparr>"

text \<open>
  NDArrayPool::alloc: the next buffer of the pool, its data type and dimensions set from
  the arguments (size from \<open>ds\<close>, offset 0, binning 1, reverse 0, the other dimensions
  zeroed). The other fields of the buffer are left as the buffer had them. Whether the
  pool has a buffer of \<open>dataSize\<close> bytes is the pool's answer.
\<close>

definition alloc ::
  "nat list \<Rightarrow> epicsInt32 \<Rightarrow> epicsInt32 \<Rightarrow> NDArray option list
     \<Rightarrow> NDArray option \<times> NDArray option list" where
  "alloc ds dt dataSize p =
     (case p of
        [] \<Rightarrow> (None, [])
      | r # rest \<Rightarrow>
          (map_option (\<lambda>a. a\<lparr>dataType := dt, ndims := of_nat (length ds),
             dims := (\<lambda>i. if i < length ds
                           then \<lparr>dsize = ds ! i, doffset = 0, dbinning = 1, dreverse = 0\<rparr>
                           else \<lparr>dsize = 0, doffset = 0, dbinning = 0, dreverse = 0\<rparr>)\<rparr>) r,
           rest))"

text \<open>NDAttributeList::add replaces the attribute of that name, or appends it.\<close>

definition add :: "string \<Rightarrow> NDAttrValue \<Rightarrow> NDArray \<Rightarrow> NDArray" where
  "add name v a = a\<lparr>pAttributeList := AList.update name v (pAttributeList a)\<rparr>"

text \<open>asynNDArrayDriver::getAttributes copies each attribute of the driver into the list.\<close>

definition getAttributes :: "(string \<times> NDAttrValue) list \<Rightarrow> NDArray \<Rightarrow> NDArray" where
  "getAttributes drv a = fold (\<lambda>(k, v). add k v) drv a"


text \<open>
  The EPICS clock and time conversions: \<open>currentTime\<close> is what \<open>updateTimeStamp\<close> and
  \<open>epicsTimeGetCurrent\<close> store.
\<close>

record epicsEnv =
  currentTime :: epicsTimeStamp
  epicsTimeAddSeconds :: "epicsTimeStamp \<Rightarrow> double \<Rightarrow> epicsTimeStamp"
  epicsTimeToTimespec :: "epicsTimeStamp \<Rightarrow> timespec"

subsection \<open>frameCallback\<close>

text \<open>The three assignments to \<open>pImage->dims[i]\<close>: size, offset and binning.\<close>

definition setDim :: "nat \<Rightarrow> nat \<Rightarrow> nat \<Rightarrow> epicsInt32 \<Rightarrow> NDArray \<Rightarrow> NDArray" where
  "setDim i sz off bin a =
     a\<lparr>dims := (dims a)(i := (dims a i)\<lparr>dsize := sz, doffset := off, dbinning := bin\<rparr>)\<rparr>"

text \<open>
  The branch of a Bayer frame with a conversion selected (lines 553 to 612, and 628 to
  688 with NDUInt16): a new image is allocated, the frame is interpolated into it, and
  the image that was bound to the frame is released. \<open>pImage->pData\<close> of a null
  \<open>pImage\<close> is a fault. The inner switch has no default: with another value of
  \<open>bayerConvert\<close> nothing is interpolated and \<open>colorMode\<close> is not assigned.
  \<open>ColorInterpolate r g b pixelPadding linePadding\<close> is the call of
  PvUtilityColorInterpolate with the three pointers at \<open>pData + r\<close>, \<open>pData + g\<close> and
  \<open>pData + b\<close>. \<open>rowSize\<close> and \<open>imageSize\<close> are \<open>int\<close>: the width, and the product of
  width and height, are cut to 32 bits and read as signed, the doubling wraps, and the
  conversion of \<open>2*rowSize\<close> to \<open>unsigned long\<close> (64 bits) extends the sign.
\<close>

definition frameCallback_convert ::
  "tPvFrame \<Rightarrow> epicsInt32 \<Rightarrow> epicsInt32 \<Rightarrow> epicsInt32 \<Rightarrow> epicsInt32 \<Rightarrow> epicsInt32 \<Rightarrow> NDArray
     \<Rightarrow> NDArray option list
     \<Rightarrow> fault + (NDArray \<times> epicsInt32 option \<times> NDArray option list \<times> event list)" where
  "frameCallback_convert pFrame binX binY bayerConvert dt maxSize pTempImage p =
     (case alloc [3, Width pFrame, Height pFrame] dt maxSize p of
        (None, p') \<Rightarrow> Inl NullDereference
      | (Some pImage, p') \<Rightarrow>
          (if bayerConvert = PSBayerConvertRGB1 then
             Inr (setDim 2 (Height pFrame) (RegionY pFrame) binY
                    (setDim 1 (Width pFrame) (RegionX pFrame) binX
                      (setDim 0 3 0 1 (pImage\<lparr>ndims := 3\<rparr>))),
                  Some NDColorModeRGB1, p',
                  [ColorInterpolate 0 1 2 2 0, Release (addr pTempImage)])
           else if bayerConvert = PSBayerConvertRGB2 then
             (let rowSize = (word_of_nat (Width pFrame) :: epicsInt32) in
              Inr (setDim 2 (Height pFrame) (RegionY pFrame) binY
                    (setDim 1 3 0 1
                      (setDim 0 (Width pFrame) (RegionX pFrame) binX (pImage\<lparr>ndims := 3\<rparr>))),
                  Some NDColorModeRGB2, p',
                  [ColorInterpolate 0 (sint rowSize) (sint (2 * rowSize)) 0
                     (unat (scast (2 * rowSize) :: 64 word)),
                   Release (addr pTempImage)]))
           else if bayerConvert = PSBayerConvertRGB3 then
             (let imageSize = (word_of_nat (Width pFrame * Height pFrame) :: epicsInt32) in
              Inr (setDim 2 3 0 1
                    (setDim 1 (Height pFrame) (RegionY pFrame) binY
                      (setDim 0 (Width pFrame) (RegionX pFrame) binX (pImage\<lparr>ndims := 3\<rparr>))),
                  Some NDColorModeRGB3, p',
                  [ColorInterpolate 0 (sint imageSize) (sint (2 * imageSize)) 0 0,
                   Release (addr pTempImage)]))
           else Inr (pImage, None, p', [Release (addr pTempImage)])))"

text \<open>
  The switch on \<open>pFrame->Format\<close> (lines 516 to 728). The result is the image that
  \<open>pImage\<close> points to afterwards, the local \<open>colorMode\<close> (\<open>None\<close> when no branch assigned
  it), the pool, and the calls made. The default branch only prints.
\<close>

definition frameCallback_format ::
  "tPvFrame \<Rightarrow> epicsInt32 \<Rightarrow> epicsInt32 \<Rightarrow> epicsInt32 \<Rightarrow> epicsInt32 \<Rightarrow> NDArray
     \<Rightarrow> NDArray option list
     \<Rightarrow> fault + (NDArray \<times> epicsInt32 option \<times> NDArray option list \<times> event list)" where
  "frameCallback_format pFrame binX binY bayerConvert maxSize pImage p =
     (case Format pFrame of
        ePvFmtMono8 \<Rightarrow>
          Inr (setDim 1 (Height pFrame) (RegionY pFrame) binY
                (setDim 0 (Width pFrame) (RegionX pFrame) binX
                  (pImage\<lparr>dataType := NDUInt8, ndims := 2\<rparr>)),
               Some NDColorModeMono, p, [])
      | ePvFmtMono16 \<Rightarrow>
          Inr (setDim 1 (Height pFrame) (RegionY pFrame) binY
                (setDim 0 (Width pFrame) (RegionX pFrame) binX
                  (pImage\<lparr>dataType := NDUInt16, ndims := 2\<rparr>)),
               Some NDColorModeMono, p, [])
      | ePvFmtBayer8 \<Rightarrow>
          (if bayerConvert = PSBayerConvertNone then
             Inr (setDim 1 (Height pFrame) (RegionY pFrame) binY
                   (setDim 0 (Width pFrame) (RegionX pFrame) binX
                     (pImage\<lparr>dataType := NDUInt8, ndims := 2\<rparr>)),
                  Some NDColorModeBayer, p, [])
           else frameCallback_convert pFrame binX binY bayerConvert NDUInt8 maxSize pImage p)
      | ePvFmtBayer16 \<Rightarrow>
          (if bayerConvert = PSBayerConvertNone then
             Inr (setDim 1 (Height pFrame) (RegionY pFrame) binY
                   (setDim 0 (Width pFrame) (RegionX pFrame) binX
                     (pImage\<lparr>dataType := NDUInt16, ndims := 2\<rparr>)),
                  Some NDColorModeBayer, p, [])
           else frameCallback_convert pFrame binX binY bayerConvert NDUInt16 maxSize pImage p)
      | ePvFmtRgb24 \<Rightarrow>
          Inr (setDim 2 (Height pFrame) (RegionY pFrame) binY
                (setDim 1 (Width pFrame) (RegionX pFrame) binX
                  (setDim 0 3 0 1 (pImage\<lparr>dataType := NDUInt8, ndims := 3\<rparr>))),
               Some NDColorModeRGB1, p, [])
      | ePvFmtRgb48 \<Rightarrow>
          Inr (setDim 2 (Height pFrame) (RegionY pFrame) binY
                (setDim 1 (Width pFrame) (RegionX pFrame) binX
                  (setDim 0 3 0 1 (pImage\<lparr>dataType := NDUInt16, ndims := 3\<rparr>))),
               Some NDColorModeRGB1, p, [])
      | _ \<Rightarrow> Inr (pImage, None, p, []))"

text \<open>
  The switch on the time stamp type (lines 732 to 778): the value stored in
  \<open>pImage->timeStamp\<close> and the value of \<open>this->timeStampFrequency\<close> afterwards.
\<close>

definition frameCallback_timeStamp ::
  "epicsEnv \<Rightarrow> epicsInt32 \<Rightarrow> tPvFrame \<Rightarrow> NDArray \<Rightarrow> tPvUint32 \<Rightarrow> epicsTimeStamp
     \<Rightarrow> double \<times> tPvUint32" where
  "frameCallback_timeStamp env timestamp_type pFrame pImage freq lastSync =
     (let native_frame_ticks = real (TimestampLo pFrame) + real (TimestampHi pFrame) * 4294967296;
          freq1 = (if freq = 0 then 1 else freq)
      in
        if timestamp_type = PSTimestampTypeNativeTicks then (native_frame_ticks, freq)
        else if timestamp_type = PSTimestampTypeNativeSeconds then
          (native_frame_ticks / real (unat freq1), freq1)
        else if timestamp_type = PSTimestampTypePOSIX then
          (let epics_frame_time =
                 epicsTimeAddSeconds env lastSync (native_frame_ticks / real (unat freq1));
               ts = epicsTimeToTimespec env epics_frame_time
           in (real_of_int (tv_sec ts) + real_of_int (tv_nsec ts) * (1 / 1000000000), freq1))
        else if timestamp_type = PSTimestampTypeEPICS then
          (let epics_frame_time =
                 epicsTimeAddSeconds env lastSync (native_frame_ticks / real (unat freq1))
           in (real (unat (secPastEpoch epics_frame_time))
                 + real (unat (nsec epics_frame_time)) * (1 / 1000000000), freq1))
        else if timestamp_type = PSTimestampTypeIOC then
          (real (unat (secPastEpoch (epicsTS pImage)))
             + real (unat (nsec (epicsTS pImage))) * (1 / 1000000000), freq)
        else (native_frame_ticks, freq))"

text \<open>Lines 790 to 796: see if acquisition is done.\<close>

definition frameCallback_acquisitionDone :: "prosilica \<Rightarrow> prosilica" where
  "frameCallback_acquisitionDone st =
     (let st1 = (if 0 < sint (framesRemaining st)
                 then st\<lparr>framesRemaining := framesRemaining st - 1\<rparr> else st)
      in if framesRemaining st1 = 0
         then setIntegerParam ADStatus ADStatusIdle
                (setIntegerParam ADAcquire 0 (emit (SetShutter 0) st1))
         else st1)"

text \<open>Lines 798 to 811: the frame counter, and the image kept in \<open>pArrays[0]\<close>.\<close>

definition frameCallback_keep :: "NDArray \<Rightarrow> prosilica \<Rightarrow> prosilica" where
  "frameCallback_keep pImage st =
     (let st1 = setIntegerParam NDArrayCounter (iparams st NDArrayCounter + 1) st;
          st2 = (case pArrays0 st1 of Some old \<Rightarrow> emit (Release (addr old)) st1 | None \<Rightarrow> st1)
      in st2\<lparr>pArrays0 := Some pImage\<rparr>)"

text \<open>
  Lines 813 to 821: a new image buffer of the maximum size is bound to the frame.
  \<open>pImage->pData\<close> of a null \<open>pImage\<close> is a fault.
\<close>

definition frameCallback_rebind :: "nat \<Rightarrow> tPvFrame \<Rightarrow> prosilica \<Rightarrow> fault + prosilica" where
  "frameCallback_rebind i pFrame st =
     (case alloc [unat (sensorWidth st), unat (sensorHeight st)] NDInt8 (maxFrameSize st) (pool st) of
        (None, p') \<Rightarrow> Inl NullDereference
      | (Some pImage, p') \<Rightarrow>
          Inr (st\<lparr>pool := p',
                  PvFrames := (PvFrames st)
                    [i := pFrame\<lparr>Context1 := Some pImage, ImageBuffer := Some (pData pImage)\<rparr>]\<rparr>))"

text \<open>Lines 831 to 836: the parameter callbacks, the frame queued again, the unlock.\<close>

definition frameCallback_finish :: "nat \<Rightarrow> prosilica \<Rightarrow> prosilica" where
  "frameCallback_finish i st = emit Unlock (emit (CaptureQueueFrame i) (emit CallParamCallbacks st))"

text \<open>
  Lines 510 to 513: a Bayer pattern above ePvBayerBGGR is replaced in the frame. The
  comparison is unsigned.
\<close>

definition fixBayerPattern :: "tPvFrame \<Rightarrow> tPvFrame" where
  "fixBayerPattern pFrame =
     (if ePvBayerBGGR < BayerPattern pFrame then pFrame\<lparr>BayerPattern := ePvBayerRGGB\<rparr>
      else pFrame)"

text \<open>Lines 494 to 821: the branch of a frame with an image and status ePvErrSuccess.\<close>

definition frameCallback_good ::
  "epicsEnv \<Rightarrow> nat \<Rightarrow> tPvFrame \<Rightarrow> NDArray \<Rightarrow> prosilica \<Rightarrow> fault + prosilica" where
  "frameCallback_good env i pFrame0 pImage0 st =
     (let pImage1 = pImage0\<lparr>uniqueId := of_nat (FrameCount pFrame0), epicsTS := currentTime env\<rparr>;
          binX = iparams st ADBinX;
          binY = iparams st ADBinY;
          pFrame = fixBayerPattern pFrame0;
          bayerPattern = BayerPattern pFrame;
          bayerConvert = iparams st PSBayerConvert
      in case frameCallback_format pFrame binX binY bayerConvert (maxFrameSize st) pImage1 (pool st) of
           Inl e \<Rightarrow> Inl e
         | Inr (pImage2, colorMode, p', evs) \<Rightarrow>
             (let pImage3 = add ''ColorMode''
                              (case colorMode of None \<Rightarrow> NDAttrIndeterminate
                                               | Some c \<Rightarrow> NDAttrInt32 c)
                              (add ''BayerPattern'' (NDAttrInt32 bayerPattern) pImage2);
                  (ts, freq) = frameCallback_timeStamp env (iparams st PSTimestampType) pFrame
                                 pImage3 (timeStampFrequency st) (lastSyncTime st);
                  pImage = getAttributes (driverAttributes st) (pImage3\<lparr>timeStamp := ts\<rparr>);
                  st1 = st\<lparr>pool := p', trace := trace st @ evs, timeStampFrequency := freq\<rparr>;
                  st2 = (if iparams st1 NDArrayCallbacks \<noteq> 0
                         then emit (DoCallbacksGenericPointer pImage) st1 else st1)
              in frameCallback_rebind i pFrame
                   (frameCallback_keep pImage (frameCallback_acquisitionDone st2))))"

text \<open>Lines 823 to 828: the other branch counts a bad frame.\<close>

definition frameCallback_bad :: "prosilica \<Rightarrow> prosilica" where
  "frameCallback_bad st = setIntegerParam PSBadFrameCounter (iparams st PSBadFrameCounter + 1) st"

text \<open>
  frameCallback, called by the vendor library with a pointer to the slot \<open>i\<close> of
  \<open>PvFrames\<close>. The library only passes slots that the driver queued.
\<close>

definition frameCallback :: "epicsEnv \<Rightarrow> nat \<Rightarrow> prosilica \<Rightarrow> fault + prosilica" where
  "frameCallback env i st =
     (if \<not> i < length (PvFrames st) then Inl InvalidFramePointer
      else
        (let pFrame = PvFrames st ! i in
         if Status pFrame = ePvErrCancelled then Inr st
         else
           (case Context1 pFrame of
              Some pImage \<Rightarrow>
                (if Status pFrame = ePvErrSuccess then
                   (case frameCallback_good env i pFrame pImage (emit Lock st) of
                      Inl e \<Rightarrow> Inl e
                    | Inr st' \<Rightarrow> Inr (frameCallback_finish i st'))
                 else Inr (frameCallback_finish i (frameCallback_bad (emit Lock st))))
            | None \<Rightarrow> Inr (frameCallback_finish i (frameCallback_bad (emit Lock st))))))"

subsection \<open>The camera\<close>

text \<open>
  What the libraries answer to the driver. An answer to a get is the error code and the
  content of the variable that the call was given, after the call. \<open>cameraInfoEx n\<close> is
  the answer to the \<open>n\<close>-th call of PvCameraInfoEx or PvCameraInfoByAddrEx that one
  connectCamera makes, counted from 0. The last two answers are asynManager's.
\<close>

record camera =
  uint32Attr :: "string \<Rightarrow> tPvErr \<times> tPvUint32"
  float32Attr :: "string \<Rightarrow> tPvErr \<times> real"
  enumAttr :: "string \<Rightarrow> tPvErr \<times> string"
  stringAttr :: "string \<Rightarrow> tPvErr \<times> string"
  uint32Set :: "string \<Rightarrow> tPvUint32 \<Rightarrow> tPvErr"
  commandRun :: "string \<Rightarrow> tPvErr"
  hostToIPAddr :: "string \<Rightarrow> 32 word \<times> nat"
  cameraInfoEx :: "nat \<Rightarrow> tPvErr \<times> tPvCameraInfoEx"
  cameraOpen :: "tPvErr \<times> nat option"
  captureAdjustPacketSize :: tPvErr
  captureStart :: tPvErr
  captureQueueFrame :: "nat \<Rightarrow> tPvErr"
  exceptionConnect :: "32 word"
  exceptionDisconnect :: "32 word"

text \<open>The tables of the driver.\<close>

definition PSTriggerStartModes :: "string list" where
  "PSTriggerStartModes =
     [''Freerun'', ''SyncIn1'', ''SyncIn2'', ''SyncIn3'', ''SyncIn4'', ''FixedRate'', ''Software'']"

definition PSTriggerEventModes :: "string list" where
  "PSTriggerEventModes = [''EdgeRising'', ''EdgeFalling'', ''EdgeAny'', ''LevelHigh'', ''LevelLow'']"

definition PSTriggerOverlapModes :: "string list" where
  "PSTriggerOverlapModes = [''Off'', ''PreviousFrame'']"

definition PSSyncOutModes :: "string list" where
  "PSSyncOutModes =
     [''GPO'', ''AcquisitionTriggerReady'', ''FrameTriggerReady'', ''FrameTrigger'', ''Exposing'',
      ''FrameReadout'', ''Imaging'', ''Acquiring'', ''SyncIn1'', ''SyncIn2'', ''SyncIn3'',
      ''SyncIn4'', ''Strobe1'', ''Strobe2'', ''Strobe3'', ''Strobe4'']"

definition PSStrobeModes :: "string list" where
  "PSStrobeModes =
     [''AcquisitionTriggerReady'', ''FrameTriggerReady'', ''FrameTrigger'', ''Exposing'',
      ''FrameReadout'', ''Acquiring'', ''SyncIn1'', ''SyncIn2'', ''SyncIn3'', ''SyncIn4'']"

definition PSExposureModes :: "string list" where
  "PSExposureModes = [''Manual'', ''AutoOnce'', ''Auto'', ''External'']"

definition PSGainModes :: "string list" where
  "PSGainModes = [''Manual'', ''AutoOnce'', ''Auto'']"

subsection \<open>setGeometry and getGeometry\<close>

text \<open>
  PvAttrUint32Set as the driver uses it: the call is recorded, and its error code is ORed
  into \<open>status\<close> unless it is the code \<open>tolerated\<close> (\<open>s != ePvErrNotFound\<close> for the
  binning; 0, which adds nothing, elsewhere).
\<close>

definition PvAttrUint32Set ::
  "camera \<Rightarrow> tPvErr \<Rightarrow> string \<Rightarrow> tPvUint32 \<Rightarrow> 32 word \<times> prosilica \<Rightarrow> 32 word \<times> prosilica" where
  "PvAttrUint32Set cam tolerated name v x =
     (let s = uint32Set cam name v
      in (if s \<noteq> tolerated then fst x OR s else fst x, emit (AttrUint32Set name v) (snd x)))"

text \<open>The quotient of two \<open>int\<close> in C: it truncates towards zero.\<close>

definition idiv :: "epicsInt32 \<Rightarrow> epicsInt32 \<Rightarrow> epicsInt32" where
  "idiv a b = word_of_int (sgn (sint a) * sgn (sint b) * (\<bar>sint a\<bar> div \<bar>sint b\<bar>))"

text \<open>
  setGeometry (lines 865 to 910). The sums and differences are those of 32-bit \<open>int\<close>;
  the divisor of each quotient is at least 1.
\<close>

definition setGeometry :: "camera \<Rightarrow> prosilica \<Rightarrow> 32 word \<times> prosilica" where
  "setGeometry cam st0 =
     (let binX = (if sint (iparams st0 ADBinX) < 1 then 1 else iparams st0 ADBinX);
          binY = (if sint (iparams st0 ADBinY) < 1 then 1 else iparams st0 ADBinY);
          minX = iparams st0 ADMinX;
          minY = iparams st0 ADMinY;
          maxSizeX = iparams st0 ADMaxSizeX;
          maxSizeY = iparams st0 ADMaxSizeY;
          clampX = (sint maxSizeX < sint (minX + iparams st0 ADSizeX));
          sizeX = (if clampX then maxSizeX - minX else iparams st0 ADSizeX);
          st1 = (if clampX then setIntegerParam ADSizeX sizeX st0 else st0);
          clampY = (sint maxSizeY < sint (minY + iparams st0 ADSizeY));
          sizeY = (if clampY then maxSizeY - minY else iparams st0 ADSizeY);
          st2 = (if clampY then setIntegerParam ADSizeY sizeY st1 else st1);
          x = PvAttrUint32Set cam ePvErrNotFound ''BinningY'' binY
                (PvAttrUint32Set cam ePvErrNotFound ''BinningX'' binX (asynSuccess, st2))
      in if fst x = 0
         then PvAttrUint32Set cam 0 ''Height'' (idiv sizeY binY)
                (PvAttrUint32Set cam 0 ''Width'' (idiv sizeX binX)
                  (PvAttrUint32Set cam 0 ''RegionY'' (idiv minY binY)
                    (PvAttrUint32Set cam 0 ''RegionX'' (idiv minX binX) x)))
         else x)"

text \<open>
  The state of a batch of attribute reads: the locals \<open>status\<close>, \<open>buffer\<close>, the integer
  and the float that the gets store into, and the driver.
\<close>

record batch =
  status :: "32 word"
  buffer :: string
  uval :: tPvUint32
  fval :: real
  drv :: prosilica

text \<open>\<open>status |= PvAttrXGet(this->PvHandle, name, ...)\<close> for the four kinds of attribute.\<close>

definition getUint32 :: "camera \<Rightarrow> string \<Rightarrow> batch \<Rightarrow> batch" where
  "getUint32 cam name b =
     b\<lparr>status := status b OR fst (uint32Attr cam name), uval := snd (uint32Attr cam name),
       drv := emit (AttrGet name) (drv b)\<rparr>"

definition getFloat32 :: "camera \<Rightarrow> string \<Rightarrow> batch \<Rightarrow> batch" where
  "getFloat32 cam name b =
     b\<lparr>status := status b OR fst (float32Attr cam name), fval := snd (float32Attr cam name),
       drv := emit (AttrGet name) (drv b)\<rparr>"

definition getEnum :: "camera \<Rightarrow> string \<Rightarrow> batch \<Rightarrow> batch" where
  "getEnum cam name b =
     b\<lparr>status := status b OR fst (enumAttr cam name), buffer := snd (enumAttr cam name),
       drv := emit (AttrGet name) (drv b)\<rparr>"

definition getString :: "camera \<Rightarrow> string \<Rightarrow> batch \<Rightarrow> batch" where
  "getString cam name b =
     b\<lparr>status := status b OR fst (stringAttr cam name), buffer := snd (stringAttr cam name),
       drv := emit (AttrGet name) (drv b)\<rparr>"

text \<open>\<open>status |= setXParam(p, v)\<close>: the parameter library returns asynSuccess.\<close>

definition putInt :: "param \<Rightarrow> (batch \<Rightarrow> epicsInt32) \<Rightarrow> batch \<Rightarrow> batch" where
  "putInt p v b = b\<lparr>drv := setIntegerParam p (v b) (drv b)\<rparr>"

definition putDouble :: "param \<Rightarrow> (batch \<Rightarrow> double) \<Rightarrow> batch \<Rightarrow> batch" where
  "putDouble p v b = b\<lparr>drv := setDoubleParam p (v b) (drv b)\<rparr>"

definition putString :: "param \<Rightarrow> (batch \<Rightarrow> string) \<Rightarrow> batch \<Rightarrow> batch" where
  "putString p v b = b\<lparr>drv := setStringParam p (v b) (drv b)\<rparr>"

text \<open>
  The loop over a table of mode names: the parameter is set to the index of the first
  name equal to \<open>buffer\<close>; when there is none it is set to 0 and asynError is ORed in.
\<close>

fun findMode :: "string list \<Rightarrow> string \<Rightarrow> nat \<Rightarrow> nat option" where
  "findMode [] s i = None"
| "findMode (m # ms) s i = (if s = m then Some i else findMode ms s (Suc i))"

definition putMode :: "string list \<Rightarrow> param \<Rightarrow> batch \<Rightarrow> batch" where
  "putMode table p b =
     (case findMode table (buffer b) 0 of
        Some i \<Rightarrow> b\<lparr>drv := setIntegerParam p (of_nat i) (drv b)\<rparr>
      | None \<Rightarrow> b\<lparr>status := status b OR asynError, drv := setIntegerParam p 0 (drv b)\<rparr>)"

text \<open>The same for the names Off and On.\<close>

definition putOnOff :: "param \<Rightarrow> batch \<Rightarrow> batch" where
  "putOnOff p b =
     (if buffer b = ''Off'' then b\<lparr>drv := setIntegerParam p 0 (drv b)\<rparr>
      else if buffer b = ''On'' then b\<lparr>drv := setIntegerParam p 1 (drv b)\<rparr>
      else b\<lparr>status := status b OR asynError, drv := setIntegerParam p 0 (drv b)\<rparr>)"

text \<open>The statements of a batch, run in the order of the source.\<close>

fun run :: "('a \<Rightarrow> 'a) list \<Rightarrow> 'a \<Rightarrow> 'a" where
  "run [] x = x"
| "run (f # fs) x = run fs (f x)"

text \<open>
  getGeometry (lines 912 to 944). A binning that cannot be read is 1, and
  ePvErrNotFound from it is not an error.
\<close>

definition getGeometry :: "camera \<Rightarrow> prosilica \<Rightarrow> 32 word \<times> prosilica" where
  "getGeometry cam st0 =
     (let sX = fst (uint32Attr cam ''BinningX'');
          binX = (if sX \<noteq> 0 then 1 else snd (uint32Attr cam ''BinningX''));
          status1 = (if sX \<noteq> ePvErrNotFound then asynSuccess OR sX else asynSuccess);
          sY = fst (uint32Attr cam ''BinningY'');
          binY = (if sY \<noteq> 0 then 1 else snd (uint32Attr cam ''BinningY''));
          status2 = (if sY \<noteq> ePvErrNotFound then status1 OR sY else status1);
          minX = snd (uint32Attr cam ''RegionX'');
          minY = snd (uint32Attr cam ''RegionY'');
          sizeX = snd (uint32Attr cam ''Width'');
          sizeY = snd (uint32Attr cam ''Height'');
          status3 = status2 OR fst (uint32Attr cam ''RegionX'') OR fst (uint32Attr cam ''RegionY'')
                      OR fst (uint32Attr cam ''Width'') OR fst (uint32Attr cam ''Height'');
          st1 = run [emit (AttrGet ''BinningX''), emit (AttrGet ''BinningY''),
                     emit (AttrGet ''RegionX''), emit (AttrGet ''RegionY''),
                     emit (AttrGet ''Width''), emit (AttrGet ''Height''),
                     setIntegerParam ADBinX binX, setIntegerParam ADBinY binY,
                     setIntegerParam ADMinX (minX * binX), setIntegerParam ADMinY (minY * binY),
                     setIntegerParam ADSizeX (sizeX * binX), setIntegerParam ADSizeY (sizeY * binY),
                     setIntegerParam NDArraySizeX sizeX, setIntegerParam NDArraySizeY sizeY] st0
      in (status3, st1))"

subsection \<open>readStats and readParameters\<close>

text \<open>
  \<open>if (status == ePvErrNotFound) { status = 0; strcpy(buffer, "Unsupported parameter"); }\<close>
\<close>

definition unsupportedIfNotFound :: "batch \<Rightarrow> batch" where
  "unsupportedIfNotFound b =
     (if status b = ePvErrNotFound then b\<lparr>status := 0, buffer := ''Unsupported parameter''\<rparr>
      else b)"

text \<open>
  \<open>if (status == ePvErrNotFound) { status = 0; ... 0 ... } else { ... }\<close>, for a
  parameter that the camera may not support: the parameter is then set to 0.
\<close>

definition zeroIfNotFound :: "param \<Rightarrow> (batch \<Rightarrow> batch) \<Rightarrow> batch \<Rightarrow> batch" where
  "zeroIfNotFound p otherwise b =
     (if status b = ePvErrNotFound then (b\<lparr>status := 0, drv := setIntegerParam p 0 (drv b)\<rparr>)
      else otherwise b)"

definition bitLevel :: "tPvUint32 \<Rightarrow> batch \<Rightarrow> epicsInt32" where
  "bitLevel m b = (if uval b AND m \<noteq> 0 then 1 else 0)"

definition microseconds :: "batch \<Rightarrow> double" where
  "microseconds b = real (unat (uval b)) / 1000000"

text \<open>
  The body of readStats (lines 956 to 1118). The locals \<open>buffer\<close>, \<open>uval\<close> and \<open>fval\<close>
  are not initialised; each is stored into by a get before it is read.
\<close>

definition readStats_run :: "camera \<Rightarrow> prosilica \<Rightarrow> batch" where
  "readStats_run cam st =
     run [getEnum cam ''StatDriverType'', unsupportedIfNotFound, putString PSDriverType buffer,
          getString cam ''StatFilterVersion'', unsupportedIfNotFound,
          putString PSFilterVersion buffer,
          getFloat32 cam ''StatFrameRate'', putDouble PSFrameRate fval,
          getUint32 cam ''StreamBytesPerSecond'', putInt PSByteRate uval,
          getUint32 cam ''PacketSize'', putInt PSPacketSize uval,
          getUint32 cam ''StatFramesCompleted'', putInt PSFramesCompleted uval,
          getUint32 cam ''StatFramesDropped'', putInt PSFramesDropped uval,
          getUint32 cam ''StatPacketsErroneous'', putInt PSPacketsErroneous uval,
          getUint32 cam ''StatPacketsMissed'', putInt PSPacketsMissed uval,
          getUint32 cam ''StatPacketsReceived'', putInt PSPacketsReceived uval,
          getUint32 cam ''StatPacketsRequested'', putInt PSPacketsRequested uval,
          getUint32 cam ''StatPacketsResent'', putInt PSPacketsResent uval,
          getUint32 cam ''SyncInLevels'',
          putInt PSSyncIn1Level (bitLevel 1), putInt PSSyncIn2Level (bitLevel 2),
          getUint32 cam ''SyncOutGpoLevels'',
          putInt PSSyncOut1Level (bitLevel 1), putInt PSSyncOut2Level (bitLevel 2),
          putInt PSSyncOut3Level (bitLevel 4),
          getUint32 cam ''FrameStartTriggerDelay'', putDouble PSTriggerDelay microseconds,
          getEnum cam ''FrameStartTriggerEvent'', putMode PSTriggerEventModes PSTriggerEvent,
          getEnum cam ''FrameStartTriggerOverlap'',
          zeroIfNotFound PSTriggerOverlap (putMode PSTriggerOverlapModes PSTriggerOverlap),
          getEnum cam ''SyncOut1Mode'', putMode PSSyncOutModes PSSyncOut1Mode,
          getEnum cam ''SyncOut2Mode'', putMode PSSyncOutModes PSSyncOut2Mode,
          getEnum cam ''SyncOut3Mode'',
          zeroIfNotFound PSSyncOut3Mode (putMode PSSyncOutModes PSSyncOut3Mode),
          getEnum cam ''SyncOut1Invert'', putOnOff PSSyncOut1Invert,
          getEnum cam ''SyncOut2Invert'', putOnOff PSSyncOut2Invert,
          getEnum cam ''SyncOut3Invert'',
          zeroIfNotFound PSSyncOut3Invert (putOnOff PSSyncOut3Invert),
          getEnum cam ''Strobe1Mode'', putMode PSStrobeModes PSStrobe1Mode,
          getEnum cam ''Strobe1ControlledDuration'', putOnOff PSStrobe1CtlDuration,
          getUint32 cam ''Strobe1Delay'', putDouble PSStrobe1Delay microseconds,
          getUint32 cam ''Strobe1Duration'', putDouble PSStrobe1Duration microseconds]
       \<lparr>status = asynSuccess, buffer = [], uval = 0, fval = 0, drv = st\<rparr>"

text \<open>readStats prints the status of its body and returns asynSuccess (line 1123).\<close>

definition readStats :: "camera \<Rightarrow> prosilica \<Rightarrow> 32 word \<times> prosilica" where
  "readStats cam st = (asynSuccess, drv (readStats_run cam st))"

text \<open>Lines 1142 to 1173: the data type and colour mode of a pixel format name.\<close>

definition pixelFormatDataType :: "batch \<Rightarrow> epicsInt32" where
  "pixelFormatDataType b =
     (if buffer b = ''Mono8'' then NDUInt8 else if buffer b = ''Mono16'' then NDUInt16
      else if buffer b = ''Rgb24'' then NDUInt8 else if buffer b = ''Rgb48'' then NDUInt16
      else if buffer b = ''Bayer8'' then NDUInt8 else if buffer b = ''Bayer16'' then NDUInt16
      else NDUInt8)"

definition pixelFormatColorMode :: "batch \<Rightarrow> epicsInt32" where
  "pixelFormatColorMode b =
     (if buffer b = ''Mono8'' then NDColorModeMono else if buffer b = ''Mono16'' then NDColorModeMono
      else if buffer b = ''Rgb24'' then NDColorModeRGB1 else if buffer b = ''Rgb48'' then NDColorModeRGB1
      else if buffer b = ''Bayer8'' then NDColorModeBayer
      else if buffer b = ''Bayer16'' then NDColorModeBayer
      else NDColorModeMono)"

text \<open>Lines 1181 to 1186: the image mode of an acquisition mode name.\<close>

definition putImageMode :: "batch \<Rightarrow> batch" where
  "putImageMode b =
     (if buffer b = ''SingleFrame'' then b\<lparr>drv := setIntegerParam ADImageMode ADImageSingle (drv b)\<rparr>
      else if buffer b = ''MultiFrame''
        then b\<lparr>drv := setIntegerParam ADImageMode ADImageMultiple (drv b)\<rparr>
      else if buffer b = ''Recorder''
        then b\<lparr>drv := setIntegerParam ADImageMode ADImageMultiple (drv b)\<rparr>
      else if buffer b = ''Continuous''
        then b\<lparr>drv := setIntegerParam ADImageMode ADImageContinuous (drv b)\<rparr>
      else b\<lparr>status := status b OR asynError, drv := setIntegerParam ADImageMode 0 (drv b)\<rparr>)"

definition geometry :: "camera \<Rightarrow> batch \<Rightarrow> batch" where
  "geometry cam b =
     b\<lparr>status := status b OR fst (getGeometry cam (drv b)), drv := snd (getGeometry cam (drv b))\<rparr>"

definition framePeriod :: "batch \<Rightarrow> double" where
  "framePeriod b = 1 / (if fval b = 0 then 1 else fval b)"

definition gain :: "batch \<Rightarrow> double" where
  "gain b = real (unat (uval b))"

text \<open>readParameters (lines 1126 to 1252).\<close>

definition readParameters_run :: "camera \<Rightarrow> prosilica \<Rightarrow> batch" where
  "readParameters_run cam st =
     run [getUint32 cam ''TotalBytesPerFrame'', putInt NDArraySize uval,
          getEnum cam ''PixelFormat'',
          putInt NDDataType pixelFormatDataType, putInt NDColorMode pixelFormatColorMode,
          geometry cam,
          getUint32 cam ''AcquisitionFrameCount'', putInt ADNumImages uval,
          getEnum cam ''AcquisitionMode'', putImageMode,
          getEnum cam ''FrameStartTriggerMode'', putMode PSTriggerStartModes ADTriggerMode,
          putInt ADNumExposures (\<lambda>b. 1),
          getUint32 cam ''ExposureValue'', putDouble ADAcquireTime microseconds,
          getFloat32 cam ''FrameRate'', putDouble ADAcquirePeriod framePeriod,
          getUint32 cam ''GainValue'', putDouble ADGain gain,
          getEnum cam ''ExposureMode'', putMode PSExposureModes PSExposureMode,
          getEnum cam ''GainMode'', putMode PSGainModes PSGainMode]
       \<lparr>status = asynSuccess, buffer = [], uval = 0, fval = 0, drv = st\<rparr>"

definition readParameters :: "camera \<Rightarrow> prosilica \<Rightarrow> 32 word \<times> prosilica" where
  "readParameters cam st =
     (status (readParameters_run cam st), emit CallParamCallbacks (drv (readParameters_run cam st)))"


definition readParameters_calls :: "event list" where
  "readParameters_calls =
     [AttrGet ''TotalBytesPerFrame'', ParamWrite NDArraySize, AttrGet ''PixelFormat'',
      ParamWrite NDDataType, ParamWrite NDColorMode, AttrGet ''BinningX'',
      AttrGet ''BinningY'', AttrGet ''RegionX'', AttrGet ''RegionY'', AttrGet ''Width'',
      AttrGet ''Height'', ParamWrite ADBinX, ParamWrite ADBinY, ParamWrite ADMinX,
      ParamWrite ADMinY, ParamWrite ADSizeX, ParamWrite ADSizeY, ParamWrite NDArraySizeX,
      ParamWrite NDArraySizeY, AttrGet ''AcquisitionFrameCount'', ParamWrite ADNumImages,
      AttrGet ''AcquisitionMode'', ParamWrite ADImageMode, AttrGet ''FrameStartTriggerMode'',
      ParamWrite ADTriggerMode, ParamWrite ADNumExposures, AttrGet ''ExposureValue'',
      ParamWrite ADAcquireTime, AttrGet ''FrameRate'', ParamWrite ADAcquirePeriod,
      AttrGet ''GainValue'', ParamWrite ADGain, AttrGet ''ExposureMode'',
      ParamWrite PSExposureMode, AttrGet ''GainMode'', ParamWrite PSGainMode,
      CallParamCallbacks]"

subsection \<open>disconnectCamera, syncTimer and connectCamera\<close>

text \<open>
  Lines 1287 to 1294, for the frame slots of the given indices: the image bound to a
  slot is released and \<open>Context[1]\<close> is cleared. \<open>ImageBuffer\<close> is not touched.
\<close>

fun disconnectCamera_frames :: "nat list \<Rightarrow> prosilica \<Rightarrow> prosilica" where
  "disconnectCamera_frames [] st = st"
| "disconnectCamera_frames (i # is) st =
     (let pFrame = PvFrames st ! i;
          st1 = (case Context1 pFrame of Some pImage \<Rightarrow> emit (Release (addr pImage)) st
                 | None \<Rightarrow> st)
      in disconnectCamera_frames is
           (st1\<lparr>PvFrames := (PvFrames st1)[i := pFrame\<lparr>Context1 := None\<rparr>]\<rparr>))"

text \<open>
  disconnectCamera (lines 1254 to 1308). The status of the three vendor calls is only
  printed. The constructor allocates \<open>maxPvAPIFrames\<close> frame slots, so the loop stays
  inside \<open>PvFrames\<close>.
\<close>

definition disconnectCamera :: "camera \<Rightarrow> prosilica \<Rightarrow> 32 word \<times> prosilica" where
  "disconnectCamera cam st =
     (if \<not> PvApiInitialized st then (asynError, st)
      else if PvHandle st = None then (asynSuccess, st)
      else
        (let st1 = run [emit Unlock, emit CaptureQueueClear, emit CaptureEnd, emit CameraClose,
                        emit Lock] st;
             st2 = disconnectCamera_frames [0 ..< nat (sint (maxPvAPIFrames st1))] st1
         in (exceptionDisconnect cam, emit ExceptionDisconnect (st2\<lparr>PvHandle := None\<rparr>))))"

text \<open>syncTimer (lines 453 to 465).\<close>

definition syncTimer :: "epicsEnv \<Rightarrow> prosilica \<Rightarrow> 32 word \<times> prosilica" where
  "syncTimer env st =
     (if PvHandle st \<noteq> None
      then (asynSuccess,
            emit (CommandRun ''TimeStampReset'')
              (emit GetCurrentTime (st\<lparr>lastSyncTime := currentTime env\<rparr>)))
      else (asynError, st))"

text \<open>
  \<open>isdigit\<close>, and \<open>atoi\<close> of a string of digits as the C library computes it: the
  number that \<open>strtol\<close> reads, which is at most \<open>LONG_MAX\<close> (64 bits), converted to
  \<open>int\<close>.
\<close>

definition isdigit :: "char \<Rightarrow> bool" where
  "isdigit c = (c \<in> set ''0123456789'')"

definition atoi :: "string \<Rightarrow> epicsInt32" where
  "atoi s =
     word_of_nat (min (foldl (\<lambda>n c. 10 * n + (of_char c - of_char CHR ''0'')) 0 s)
                      9223372036854775807)"

text \<open>
  The loop of lines 1376 to 1395, entered with \<open>retryCount\<close> polls already made after the
  first one. The result is \<open>True\<close> when the loop returns asynError from connectCamera
  (the status could not be read). \<open>retryCount\<close> is unsigned and stays below 30.
\<close>

function connectCamera_retry :: "camera \<Rightarrow> nat \<Rightarrow> prosilica \<Rightarrow> bool \<times> prosilica" where
  "connectCamera_retry cam retryCount st =
     (if PermittedAccess (PvCameraInfo st) AND ePvAccessMaster \<noteq> 0 then (False, st)
      else
        (let st1 = emit CameraInfoPoll (emit (ThreadSleep CONNECT_RETRY_INTERVAL) st);
             st2 = st1\<lparr>PvCameraInfo := snd (cameraInfoEx cam (Suc retryCount))\<rparr>
         in if fst (cameraInfoEx cam (Suc retryCount)) \<noteq> 0 then (True, st2)
            else if unat CONNECT_RETRY_COUNT \<le> Suc retryCount then (False, st2)
            else connectCamera_retry cam (Suc retryCount) st2))"
  by pat_completeness auto
termination
  by (relation "measure (\<lambda>(cam, retryCount, st). 30 - retryCount)") auto

declare connectCamera_retry.simps [simp del]

text \<open>
  The loop of lines 1459 to 1486 over the frame slots of the given indices. The result is
  \<open>False\<close> when the loop returns asynError from connectCamera.
\<close>

fun connectCamera_frames :: "camera \<Rightarrow> nat list \<Rightarrow> prosilica \<Rightarrow> bool \<times> prosilica" where
  "connectCamera_frames cam [] st = (True, st)"
| "connectCamera_frames cam (i # is) st =
     (case alloc [unat (sensorWidth st), unat (sensorHeight st)] NDInt8 (maxFrameSize st) (pool st) of
        (None, p') \<Rightarrow> (False, st\<lparr>pool := p'\<rparr>)
      | (Some pImage, p') \<Rightarrow>
          (let st1 = emit (CaptureQueueFrame i)
                       (st\<lparr>pool := p',
                           PvFrames := (PvFrames st)
                             [i := (PvFrames st ! i)\<lparr>ImageBuffer := Some (pData pImage),
                                     ImageBufferSize := maxFrameSize st,
                                     Context1 := Some pImage\<rparr>]\<rparr>)
           in if captureQueueFrame cam i \<noteq> 0 then (False, st1)
              else connectCamera_frames cam is st1))"

text \<open>
  Lines 1404 to 1540 of connectCamera: the camera is opened, the capture is started, the
  sensor is read, the frame slots are bound and queued, the parameters are set and read.
  The version strings are not modelled beyond the parameters they are stored in.
\<close>

definition connectCamera_open :: "camera \<Rightarrow> epicsEnv \<Rightarrow> prosilica \<Rightarrow> 32 word \<times> prosilica" where
  "connectCamera_open cam env st0 =
     (let st1 = emit CameraOpen st0 in
      if fst (cameraOpen cam) \<noteq> 0 then (asynError, st1\<lparr>PvHandle := None\<rparr>)
      else
        (let st2 = emit (CaptureAdjustPacketSize MAX_PACKET_SIZE) (st1\<lparr>PvHandle := snd (cameraOpen cam)\<rparr>) in
         if captureAdjustPacketSize cam \<noteq> 0 then (asynError, st2)
         else
           (let st3 = emit CaptureStart st2 in
            if captureStart cam \<noteq> 0 then (asynError, st3)
            else
              (let st4 = run [emit (AttrGet ''SensorType''), emit (AttrGet ''SensorBits''),
                              emit (AttrGet ''SensorWidth''), emit (AttrGet ''SensorHeight''),
                              emit (AttrGet ''TimeStampFrequency''),
                              emit (AttrGet ''DeviceIPAddress'')]
                           (st3\<lparr>sensorType := snd (enumAttr cam ''SensorType''),
                                sensorBits := snd (uint32Attr cam ''SensorBits''),
                                sensorWidth := snd (uint32Attr cam ''SensorWidth''),
                                sensorHeight := snd (uint32Attr cam ''SensorHeight''),
                                timeStampFrequency := snd (uint32Attr cam ''TimeStampFrequency''),
                                IPAddress := snd (stringAttr cam ''DeviceIPAddress'')\<rparr>)
               in
               if fst (enumAttr cam ''SensorType'') OR fst (uint32Attr cam ''SensorBits'')
                    OR fst (uint32Attr cam ''SensorWidth'') OR fst (uint32Attr cam ''SensorHeight'')
                    OR fst (uint32Attr cam ''TimeStampFrequency'')
                    OR fst (stringAttr cam ''DeviceIPAddress'') \<noteq> 0
               then (asynError, st4)
               else
                 (let bytesPerPixel = (sensorBits st4 - 1) div 8 + 1;
                      bytesPerPixel' = (if sensorType st4 \<noteq> ''Mono'' then bytesPerPixel * 3
                                        else bytesPerPixel);
                      st5 = st4\<lparr>maxFrameSize := sensorWidth st4 * sensorHeight st4 * bytesPerPixel'\<rparr>;
                      r = connectCamera_frames cam [0 ..< nat (sint (maxPvAPIFrames st5))] st5
                  in
                  if \<not> fst r then (asynError, snd r)
                  else
                    (let st6 = run [setStringParam ADManufacturer ''Prosilica'',
                                    setStringParam ADModel (ModelName (PvCameraInfo st5)),
                                    setStringParam ADSerialNumber (SerialNumber (PvCameraInfo st5)),
                                    setStringParam ADFirmwareVersion
                                      (FirmwareVersion (PvCameraInfo st5)),
                                    setStringParam ADSDKVersion ''PvVersion'',
                                    setStringParam NDDriverVersion ''2.5.0'',
                                    setIntegerParam ADSizeX (sensorWidth st5),
                                    setIntegerParam ADSizeY (sensorHeight st5),
                                    setIntegerParam ADMaxSizeX (sensorWidth st5),
                                    setIntegerParam ADMaxSizeY (sensorHeight st5),
                                    setIntegerParam PSBadFrameCounter 0] (snd r);
                         rp = readParameters cam st6
                     in
                     if fst rp \<noteq> 0 then rp
                     else
                       (let st7 = emit (CommandRun ''AcquisitionAbort'')
                                    (snd (readStats cam (snd rp)));
                            st8 = emit ExceptionConnect (snd (syncTimer env st7))
                        in if exceptionConnect cam \<noteq> 0 then (asynError, st8)
                           else (asynSuccess, st8))))))))"

text \<open>
  connectCamera (lines 1310 to 1540). The first call of PvCameraInfoEx or
  PvCameraInfoByAddrEx is poll 0. \<open>uniqueId\<close> is \<open>unsigned long\<close> (64 bits): the
  assignment of the \<open>int\<close> that \<open>atoi\<close> returns extends its sign.
\<close>

definition connectCamera :: "camera \<Rightarrow> epicsEnv \<Rightarrow> prosilica \<Rightarrow> 32 word \<times> prosilica" where
  "connectCamera cam env st0 =
     (if \<not> PvApiInitialized st0 then (asynError, st0)
      else
        (let st1 = snd (disconnectCamera cam st0);
             isUniqueId = list_all isdigit (cameraId st1);
             st2 = (if isUniqueId
                    then st1\<lparr>cameraUniqueId := unat (scast (atoi (cameraId st1)) :: 64 word)\<rparr>
                    else st1\<lparr>uniqueIP := snd (hostToIPAddr cam (cameraId st1))\<rparr>)
         in
         if \<not> isUniqueId \<and> fst (hostToIPAddr cam (cameraId st1)) \<noteq> 0 then (asynError, st1)
         else
           (let st3 = emit CameraInfoPoll (st2\<lparr>PvCameraInfo := snd (cameraInfoEx cam 0)\<rparr>) in
            if fst (cameraInfoEx cam 0) \<noteq> 0 then (asynError, st3)
            else
              (let st4 = (if isUniqueId then st3
                          else st3\<lparr>cameraUniqueId := UniqueId (PvCameraInfo st3)\<rparr>);
                   r = connectCamera_retry cam 0 st4
               in
               if fst r then (asynError, snd r)
               else if PermittedAccess (PvCameraInfo (snd r)) AND ePvAccessMaster = 0
                 then (asynError, snd r)
               else connectCamera_open cam env (snd r)))))"

subsection \<open>writeInt32 for ADAcquire and for the geometry\<close>

text \<open>
  Lines 1588 to 1603: what writeInt32 does for a non-zero value of ADAcquire before it
  runs the command AcquisitionStart. The switch on the image mode has no default.
\<close>

definition writeInt32_ADAcquire_prepare :: "prosilica \<Rightarrow> prosilica" where
  "writeInt32_ADAcquire_prepare st =
     (let imageMode = iparams st ADImageMode;
          numImages = iparams st ADNumImages;
          st1 = (if imageMode = ADImageSingle then st\<lparr>framesRemaining := 1\<rparr>
                 else if imageMode = ADImageMultiple then st\<lparr>framesRemaining := numImages\<rparr>
                 else if imageMode = ADImageContinuous then st\<lparr>framesRemaining := - 1\<rparr>
                 else st)
      in emit (SetShutter 1) (setIntegerParam ADStatus ADStatusAcquire st1))"

text \<open>
  writeInt32 when \<open>pasynUser->reason\<close> is ADAcquire (lines 1557, 1582 to 1609 and 1671 to
  1681).
\<close>

definition writeInt32_ADAcquire :: "camera \<Rightarrow> epicsInt32 \<Rightarrow> prosilica \<Rightarrow> 32 word \<times> prosilica" where
  "writeInt32_ADAcquire cam v st0 =
     (let st1 = setIntegerParam ADAcquire v st0;
          st2 = (if v \<noteq> 0
                 then emit (CommandRun ''AcquisitionStart'') (writeInt32_ADAcquire_prepare st1)
                 else emit (CommandRun ''AcquisitionAbort'')
                        (emit (SetShutter 0) (setIntegerParam ADStatus ADStatusIdle st1)));
          status1 = (if v \<noteq> 0 then commandRun cam ''AcquisitionStart''
                     else commandRun cam ''AcquisitionAbort'');
          rp = readParameters cam st2
      in (status1 OR fst rp, snd rp))"

text \<open>
  writeInt32 when \<open>pasynUser->reason\<close> is one of ADBinX, ADBinY, ADMinX, ADSizeX, ADMinY
  and ADSizeY (lines 1557, 1559 to 1567 and 1671 to 1681): the value is written to the
  parameter, the geometry is applied, and the parameters are read back from the camera.
\<close>

definition writeInt32_geometry ::
  "camera \<Rightarrow> param \<Rightarrow> epicsInt32 \<Rightarrow> prosilica \<Rightarrow> 32 word \<times> prosilica" where
  "writeInt32_geometry cam function v st0 =
     (let sg = setGeometry cam (setIntegerParam function v st0);
          rp = readParameters cam (snd sg)
      in (fst sg OR fst rp, snd rp))"

text \<open>The images that the trace says were handed to the image consumer.\<close>

fun delivered :: "event list \<Rightarrow> NDArray list" where
  "delivered [] = []"
| "delivered (DoCallbacksGenericPointer a # es) = a # delivered es"
| "delivered (e # es) = delivered es"

subsection \<open>Example states\<close>

text \<open>A buffer of the pool as the constructor of NDArray leaves it.\<close>

definition blankImage :: "nat \<Rightarrow> NDArray" where
  "blankImage a =
     \<lparr>addr = a, pData = a + 1, uniqueId = 0, epicsTS = \<lparr>secPastEpoch = 0, nsec = 0\<rparr>,
      timeStamp = 0, dataType = NDInt8, ndims = 0,
      dims = (\<lambda>i. \<lparr>dsize = 0, doffset = 0, dbinning = 0, dreverse = 0\<rparr>),
      pAttributeList = []\<rparr>"

text \<open>A completed 640 by 480 frame of the given status and format, bound to the buffer at 100.\<close>

definition exampleFrame :: "tPvErr \<Rightarrow> tPvImageFormat \<Rightarrow> tPvFrame" where
  "exampleFrame s fmt =
     \<lparr>ImageBuffer = Some 101, ImageBufferSize = 921600, Context1 = Some (blankImage 100),
      Status = s, Format = fmt, Width = 640, Height = 480, RegionX = 0, RegionY = 0,
      BayerPattern = ePvBayerRGGB, FrameCount = 7, TimestampLo = 5000, TimestampHi = 0\<rparr>"

text \<open>
  A connected driver with a 640 by 480 colour sensor of 8 bits and one frame slot, acquiring in
  multiple mode with three frames to go, array callbacks enabled, and a last good image
  at address 50. The pool has two more buffers.
\<close>

definition exampleDriver :: "tPvFrame \<Rightarrow> prosilica" where
  "exampleDriver f =
     \<lparr>PvApiInitialized = True, PvHandle = Some 1, cameraId = ''5001'', uniqueIP = 0,
      cameraUniqueId = 5001,
      PvCameraInfo = \<lparr>UniqueId = 5001, PermittedAccess = ePvAccessMaster, ModelName = ''GC'',
                      SerialNumber = ''1'', FirmwareVersion = ''1''\<rparr>,
      PvFrames = [f], maxFrameSize = 921600, maxPvAPIFrames = 1, framesRemaining = 3,
      sensorType = ''Bayer'', IPAddress = ''10.0.0.2'', sensorBits = 8, sensorWidth = 640,
      sensorHeight = 480, timeStampFrequency = 1000,
      lastSyncTime = \<lparr>secPastEpoch = 900, nsec = 0\<rparr>,
      iparams = (\<lambda>p. 0)(NDArrayCallbacks := 1, ADBinX := 1, ADBinY := 1, ADAcquire := 1,
                         ADStatus := ADStatusAcquire, ADImageMode := ADImageMultiple,
                         ADNumImages := 3, ADMaxSizeX := 640, ADMaxSizeY := 480,
                         ADSizeX := 640, ADSizeY := 480),
      dparams = (\<lambda>p. 0), sparams = (\<lambda>p. []),
      pArrays0 = Some (blankImage 50), driverAttributes = [],
      pool = [Some (blankImage 200), Some (blankImage 300)], trace = []\<rparr>"

text \<open>The same driver with the listed integer parameters set to the listed values.\<close>

definition exampleDriverWith :: "(param \<times> epicsInt32) list \<Rightarrow> tPvFrame \<Rightarrow> prosilica" where
  "exampleDriverWith ps f =
     (exampleDriver f)\<lparr>iparams := fold (\<lambda>(p, v) m. m(p := v)) ps (iparams (exampleDriver f))\<rparr>"

text \<open>The driver with a region of offset 100 and size 540 in X on the 640 by 480 sensor.\<close>

definition offsetRegion :: prosilica where
  "offsetRegion =
     exampleDriverWith [(ADMinX, 100), (ADSizeX, 540)] (exampleFrame ePvErrSuccess ePvFmtMono8)"

text \<open>
  An EPICS clock that reads 1000 s. The EPICS epoch is 631152000 s after the POSIX one.
  In this example epicsTimeAddSeconds adds the whole seconds only.
\<close>

definition exampleEnv :: epicsEnv where
  "exampleEnv =
     \<lparr>currentTime = \<lparr>secPastEpoch = 1000, nsec = 0\<rparr>,
      epicsTimeAddSeconds = (\<lambda>t s. \<lparr>secPastEpoch = secPastEpoch t + of_int \<lfloor>s\<rfloor>, nsec = nsec t\<rparr>),
      epicsTimeToTimespec = (\<lambda>t. \<lparr>tv_sec = uint (secPastEpoch t) + 631152000,
                                   tv_nsec = uint (nsec t)\<rparr>)\<rparr>"

text \<open>
  A camera on which every call succeeds, except that the attributes listed in \<open>missing\<close>
  are not found. Master access is permitted from the poll \<open>granted\<close> on, and never when
  \<open>granted\<close> is \<open>None\<close>.
\<close>

definition exampleCamera :: "string list \<Rightarrow> nat option \<Rightarrow> camera" where
  "exampleCamera missing granted =
     \<lparr>uint32Attr = (\<lambda>n. (if n \<in> set missing then ePvErrNotFound else ePvErrSuccess,
                          if n = ''SensorWidth'' \<or> n = ''Width'' then 640
                          else if n = ''SensorHeight'' \<or> n = ''Height'' then 480
                          else if n = ''SensorBits'' then 8
                          else if n = ''RegionX'' \<or> n = ''RegionY'' then 0 else 1)),
      float32Attr = (\<lambda>n. (if n \<in> set missing then ePvErrNotFound else ePvErrSuccess, 10)),
      enumAttr = (\<lambda>n. (if n \<in> set missing then ePvErrNotFound else ePvErrSuccess,
                        if n = ''FrameStartTriggerEvent'' then ''EdgeRising''
                        else if n = ''SyncOut1Mode'' \<or> n = ''SyncOut2Mode'' \<or> n = ''SyncOut3Mode''
                          then ''GPO''
                        else if n = ''Strobe1Mode'' then ''FrameTrigger''
                        else if n = ''PixelFormat'' then ''Mono8''
                        else if n = ''AcquisitionMode'' then ''MultiFrame''
                        else if n = ''FrameStartTriggerMode'' then ''Freerun''
                        else if n = ''ExposureMode'' \<or> n = ''GainMode'' then ''Manual''
                        else if n = ''SensorType'' then ''Bayer''
                        else if n = ''StatDriverType'' then ''Standard''
                        else ''Off'')),
      stringAttr = (\<lambda>n. (if n \<in> set missing then ePvErrNotFound else ePvErrSuccess, ''1.24'')),
      uint32Set = (\<lambda>n v. if n \<in> set missing then ePvErrNotFound else ePvErrSuccess),
      commandRun = (\<lambda>n. ePvErrSuccess),
      hostToIPAddr = (\<lambda>n. (0, 167772162)),
      cameraInfoEx = (\<lambda>n. (ePvErrSuccess,
                            \<lparr>UniqueId = 5001,
                             PermittedAccess = (case granted of Some g \<Rightarrow> if g \<le> n then 6 else 2
                                                | None \<Rightarrow> 2),
                             ModelName = ''GC'', SerialNumber = ''1'', FirmwareVersion = ''1''\<rparr>)),
      cameraOpen = (ePvErrSuccess, Some 1),
      captureAdjustPacketSize = ePvErrSuccess, captureStart = ePvErrSuccess,
      captureQueueFrame = (\<lambda>i. ePvErrSuccess),
      exceptionConnect = asynSuccess, exceptionDisconnect = asynSuccess\<rparr>"

text \<open>
  The camera \<open>cam\<close>, except that a get of a listed integer attribute succeeds with the
  listed value.
\<close>

definition reporting :: "(string \<times> tPvUint32) list \<Rightarrow> camera \<Rightarrow> camera" where
  "reporting kvs cam =
     cam\<lparr>uint32Attr := (\<lambda>n. case map_of kvs n of None \<Rightarrow> uint32Attr cam n
                                | Some v \<Rightarrow> (ePvErrSuccess, v))\<rparr>"

text \<open>
  A camera on which every call succeeds and that reports the region of offset 100 and
  width 2147483647 in X.
\<close>

definition overflowCamera :: camera where
  "overflowCamera = reporting [(''RegionX'', 100), (''Width'', 2147483647)] (exampleCamera [] None)"

section \<open>Properties\<close>

subsection \<open>Auxiliary facts about the steps of frameCallback\<close>

lemma emit_simps [simp]:
  "trace (emit e st) = trace st @ [e]"
  "iparams (emit e st) = iparams st"
  "framesRemaining (emit e st) = framesRemaining st"
  "pool (emit e st) = pool st"
  "PvFrames (emit e st) = PvFrames st"
  "pArrays0 (emit e st) = pArrays0 st"
  "sensorWidth (emit e st) = sensorWidth st"
  "sensorHeight (emit e st) = sensorHeight st"
  "maxFrameSize (emit e st) = maxFrameSize st"
  "PvHandle (emit e st) = PvHandle st"
  "timeStampFrequency (emit e st) = timeStampFrequency st"
  "lastSyncTime (emit e st) = lastSyncTime st"
  "driverAttributes (emit e st) = driverAttributes st"
  by (simp_all add: emit_def)

lemma setIntegerParam_simps [simp]:
  "trace (setIntegerParam p v st) = trace st @ [ParamWrite p]"
  "iparams (setIntegerParam p v st) = (iparams st)(p := v)"
  "framesRemaining (setIntegerParam p v st) = framesRemaining st"
  "pool (setIntegerParam p v st) = pool st"
  "PvFrames (setIntegerParam p v st) = PvFrames st"
  "pArrays0 (setIntegerParam p v st) = pArrays0 st"
  "sensorWidth (setIntegerParam p v st) = sensorWidth st"
  "sensorHeight (setIntegerParam p v st) = sensorHeight st"
  "maxFrameSize (setIntegerParam p v st) = maxFrameSize st"
  "PvHandle (setIntegerParam p v st) = PvHandle st"
  by (simp_all add: setIntegerParam_def)

lemma frameCallback_acquisitionDone_simps:
  "framesRemaining (frameCallback_acquisitionDone st) =
     (if 0 < sint (framesRemaining st) then framesRemaining st - 1 else framesRemaining st)"
  "trace (frameCallback_acquisitionDone st) = trace st @
     (if framesRemaining (frameCallback_acquisitionDone st) = 0
      then [SetShutter 0, ParamWrite ADAcquire, ParamWrite ADStatus] else [])"
  "iparams (frameCallback_acquisitionDone st) =
     (if framesRemaining (frameCallback_acquisitionDone st) = 0
      then (iparams st)(ADAcquire := 0, ADStatus := ADStatusIdle) else iparams st)"
  "pool (frameCallback_acquisitionDone st) = pool st"
  "PvFrames (frameCallback_acquisitionDone st) = PvFrames st"
  "pArrays0 (frameCallback_acquisitionDone st) = pArrays0 st"
  "sensorWidth (frameCallback_acquisitionDone st) = sensorWidth st"
  "sensorHeight (frameCallback_acquisitionDone st) = sensorHeight st"
  "maxFrameSize (frameCallback_acquisitionDone st) = maxFrameSize st"
  by (simp_all add: frameCallback_acquisitionDone_def Let_def)

lemma frameCallback_keep_simps:
  "framesRemaining (frameCallback_keep a st) = framesRemaining st"
  "trace (frameCallback_keep a st) = trace st @ ParamWrite NDArrayCounter #
      (case pArrays0 st of Some old \<Rightarrow> [Release (addr old)] | None \<Rightarrow> [])"
  "iparams (frameCallback_keep a st) = (iparams st)(NDArrayCounter := iparams st NDArrayCounter + 1)"
  "pool (frameCallback_keep a st) = pool st"
  "PvFrames (frameCallback_keep a st) = PvFrames st"
  "pArrays0 (frameCallback_keep a st) = Some a"
  "sensorWidth (frameCallback_keep a st) = sensorWidth st"
  "sensorHeight (frameCallback_keep a st) = sensorHeight st"
  "maxFrameSize (frameCallback_keep a st) = maxFrameSize st"
  by (simp_all add: frameCallback_keep_def Let_def split: option.splits)

lemma frameCallback_convert_pool:
  assumes "frameCallback_convert f bx by bc dt ms img p = Inr (img', cm, p', evs)"
  shows "p' = tl p \<and> delivered evs = [] \<and> (\<forall>v. SetShutter v \<notin> set evs)
     \<and> (\<forall>j. CaptureQueueFrame j \<notin> set evs)"
  using assms
  by (auto simp: frameCallback_convert_def alloc_def Let_def
      split: if_splits list.splits option.splits)

lemma frameCallback_format_pool:
  assumes "frameCallback_format f bx by bc ms img p = Inr (img', cm, p', evs)"
  shows "(p' = p \<or> p' = tl p) \<and> delivered evs = [] \<and> (\<forall>v. SetShutter v \<notin> set evs)
     \<and> (\<forall>j. CaptureQueueFrame j \<notin> set evs)"
proof (cases "Format f")
  case ePvFmtBayer8
  then show ?thesis using assms frameCallback_convert_pool[of f bx "by" bc _ ms img p img' cm p' evs]
    by (auto simp: frameCallback_format_def split: if_splits)
next
  case ePvFmtBayer16
  then show ?thesis using assms frameCallback_convert_pool[of f bx "by" bc _ ms img p img' cm p' evs]
    by (auto simp: frameCallback_format_def split: if_splits)
qed (use assms in \<open>auto simp: frameCallback_format_def\<close>)

lemma getAttributes_lookup:
  "k \<notin> fst ` set kvs \<Longrightarrow>
     map_of (pAttributeList (getAttributes kvs a)) k = map_of (pAttributeList a) k"
  unfolding getAttributes_def
  by (induction kvs arbitrary: a) (auto simp: add_def update_conv')

lemma frameCallback_rebind_Inr:
  assumes "frameCallback_rebind i f st = Inr st'"
  shows "\<exists>b. alloc [unat (sensorWidth st), unat (sensorHeight st)] NDInt8 (maxFrameSize st) (pool st)
            = (Some b, pool st')
       \<and> PvFrames st' = (PvFrames st)[i := f\<lparr>Context1 := Some b, ImageBuffer := Some (pData b)\<rparr>]
       \<and> trace st' = trace st \<and> iparams st' = iparams st \<and> framesRemaining st' = framesRemaining st
       \<and> pArrays0 st' = pArrays0 st"
  using assms
  by (auto simp: frameCallback_rebind_def split: prod.splits option.splits)

lemma frameCallback_good_Inr:
  assumes "frameCallback_good env i f img st = Inr st'"
  shows "\<exists>img2 cm p1 evs b a.
     frameCallback_format (fixBayerPattern f)
        (iparams st ADBinX) (iparams st ADBinY) (iparams st PSBayerConvert) (maxFrameSize st)
        (img\<lparr>uniqueId := of_nat (FrameCount f), epicsTS := currentTime env\<rparr>) (pool st) = Inr (img2, cm, p1, evs)
     \<and> alloc [unat (sensorWidth st), unat (sensorHeight st)] NDInt8 (maxFrameSize st) p1 = (Some b, pool st')
     \<and> PvFrames st' = (PvFrames st)[i := (fixBayerPattern f)\<lparr>Context1 := Some b, ImageBuffer := Some (pData b)\<rparr>]
     \<and> pArrays0 st' = Some a
     \<and> a = getAttributes (driverAttributes st)
             ((add ''ColorMode'' (case cm of None \<Rightarrow> NDAttrIndeterminate | Some c \<Rightarrow> NDAttrInt32 c)
                (add ''BayerPattern'' (NDAttrInt32 (BayerPattern (fixBayerPattern f))) img2))
              \<lparr>timeStamp := fst (frameCallback_timeStamp env (iparams st PSTimestampType) (fixBayerPattern f)
                 (add ''ColorMode'' (case cm of None \<Rightarrow> NDAttrIndeterminate | Some c \<Rightarrow> NDAttrInt32 c)
                (add ''BayerPattern'' (NDAttrInt32 (BayerPattern (fixBayerPattern f))) img2))
                 (timeStampFrequency st) (lastSyncTime st))\<rparr>)
     \<and> framesRemaining st' = (if 0 < sint (framesRemaining st) then framesRemaining st - 1 else framesRemaining st)
     \<and> trace st' = trace st @ evs @ (if iparams st NDArrayCallbacks \<noteq> 0 then [DoCallbacksGenericPointer a] else [])
          @ (if framesRemaining st' = 0 then [SetShutter 0, ParamWrite ADAcquire, ParamWrite ADStatus] else [])
          @ [ParamWrite NDArrayCounter] @ (case pArrays0 st of Some old \<Rightarrow> [Release (addr old)] | None \<Rightarrow> [])
     \<and> iparams st' = (if framesRemaining st' = 0 then (iparams st)(ADAcquire := 0, ADStatus := ADStatusIdle) else iparams st)
           (NDArrayCounter := iparams st NDArrayCounter + 1)"
proof -
  obtain img2 cm p1 evs where fmt: "frameCallback_format (fixBayerPattern f)
        (iparams st ADBinX) (iparams st ADBinY) (iparams st PSBayerConvert) (maxFrameSize st)
        (img\<lparr>uniqueId := of_nat (FrameCount f), epicsTS := currentTime env\<rparr>) (pool st) = Inr (img2, cm, p1, evs)"
    using assms
    by (cases "frameCallback_format (fixBayerPattern f)
        (iparams st ADBinX) (iparams st ADBinY) (iparams st PSBayerConvert) (maxFrameSize st)
        (img\<lparr>uniqueId := of_nat (FrameCount f), epicsTS := currentTime env\<rparr>) (pool st)")
       (auto simp: frameCallback_good_def fixBayerPattern_def Let_def)
  define img3 where "img3 = add ''ColorMode'' (case cm of None \<Rightarrow> NDAttrIndeterminate | Some c \<Rightarrow> NDAttrInt32 c)
                (add ''BayerPattern'' (NDAttrInt32 (BayerPattern (fixBayerPattern f))) img2)"
  define tsf where "tsf = frameCallback_timeStamp env (iparams st PSTimestampType) (fixBayerPattern f)
                 img3 (timeStampFrequency st) (lastSyncTime st)"
  define a where "a = getAttributes (driverAttributes st) (img3\<lparr>timeStamp := fst tsf\<rparr>)"
  define st1 where "st1 = st\<lparr>pool := p1, trace := trace st @ evs, timeStampFrequency := snd tsf\<rparr>"
  define st2 where "st2 = (if iparams st1 NDArrayCallbacks \<noteq> 0
                         then emit (DoCallbacksGenericPointer a) st1 else st1)"
  have "frameCallback_good env i f img st = frameCallback_rebind i (fixBayerPattern f)
                   (frameCallback_keep a (frameCallback_acquisitionDone st2))"
    unfolding frameCallback_good_def a_def st2_def st1_def tsf_def img3_def
    using fmt by (simp add: Let_def fixBayerPattern_def [symmetric] case_prod_beta)
  with assms have reb: "frameCallback_rebind i (fixBayerPattern f)
                   (frameCallback_keep a (frameCallback_acquisitionDone st2)) = Inr st'"
    by simp
  have st2s: "pool st2 = p1" "trace st2 = trace st @ evs @ (if iparams st NDArrayCallbacks \<noteq> 0 then [DoCallbacksGenericPointer a] else [])"
     "iparams st2 = iparams st" "framesRemaining st2 = framesRemaining st" "pArrays0 st2 = pArrays0 st"
     "sensorWidth st2 = sensorWidth st" "sensorHeight st2 = sensorHeight st" "maxFrameSize st2 = maxFrameSize st"
     "PvFrames st2 = PvFrames st"
    by (simp_all add: st2_def st1_def)
  from frameCallback_rebind_Inr[OF reb] obtain b where
    b: "alloc [unat (sensorWidth st), unat (sensorHeight st)] NDInt8 (maxFrameSize st) p1 = (Some b, pool st')"
      "PvFrames st' = (PvFrames st)[i := (fixBayerPattern f)\<lparr>Context1 := Some b, ImageBuffer := Some (pData b)\<rparr>]"
      "trace st' = trace (frameCallback_keep a (frameCallback_acquisitionDone st2))"
      "iparams st' = iparams (frameCallback_keep a (frameCallback_acquisitionDone st2))"
      "framesRemaining st' = framesRemaining (frameCallback_keep a (frameCallback_acquisitionDone st2))"
      "pArrays0 st' = pArrays0 (frameCallback_keep a (frameCallback_acquisitionDone st2))"
    by (auto simp: frameCallback_keep_simps frameCallback_acquisitionDone_simps st2s)
  have fr: "framesRemaining st' = (if 0 < sint (framesRemaining st) then framesRemaining st - 1 else framesRemaining st)"
    using b(5) by (simp add: frameCallback_keep_simps frameCallback_acquisitionDone_simps st2s)
  have fr2: "framesRemaining (frameCallback_acquisitionDone st2) = framesRemaining st'"
    using b(5) by (simp add: frameCallback_keep_simps)
  have tr: "trace st' = trace st @ evs @ (if iparams st NDArrayCallbacks \<noteq> 0 then [DoCallbacksGenericPointer a] else [])
          @ (if framesRemaining st' = 0 then [SetShutter 0, ParamWrite ADAcquire, ParamWrite ADStatus] else [])
          @ [ParamWrite NDArrayCounter] @ (case pArrays0 st of Some old \<Rightarrow> [Release (addr old)] | None \<Rightarrow> [])"
    using b(3) by (simp add: frameCallback_keep_simps frameCallback_acquisitionDone_simps(2-) fr2 st2s)
  have ip: "iparams st' = (if framesRemaining st' = 0 then (iparams st)(ADAcquire := 0, ADStatus := ADStatusIdle) else iparams st)
           (NDArrayCounter := iparams st NDArrayCounter + 1)"
    using b(4) by (simp add: frameCallback_keep_simps frameCallback_acquisitionDone_simps(2-) fr2 st2s)
  have pa: "pArrays0 st' = Some a" using b(6) by (simp add: frameCallback_keep_simps)
  show ?thesis
    using fmt b(1,2) pa fr tr ip unfolding a_def img3_def tsf_def by blast
qed

lemmas example_defs = exampleDriver_def exampleFrame_def exampleEnv_def blankImage_def
lemmas frameCallback_decode_defs = frameCallback_def frameCallback_good_def
  frameCallback_format_def frameCallback_convert_def frameCallback_timeStamp_def
  fixBayerPattern_def alloc_def Let_def
lemmas frameCallback_step_defs = frameCallback_acquisitionDone_def
  frameCallback_keep_def frameCallback_rebind_def frameCallback_finish_def frameCallback_bad_def
  emit_def setIntegerParam_def alloc_def add_def getAttributes_def setDim_def Let_def

lemma frameCallback_Inr_good:
  assumes "frameCallback env i st = Inr st'"
      and "Status (PvFrames st ! i) = ePvErrSuccess" and "Context1 (PvFrames st ! i) = Some img"
  shows "\<exists>st1. frameCallback_good env i (PvFrames st ! i) img (emit Lock st) = Inr st1
            \<and> st' = frameCallback_finish i st1"
  using assms by (auto simp: frameCallback_def Let_def split: if_splits sum.splits)

lemma frameCallback_Inr_bad:
  assumes "frameCallback env i st = Inr st'" and "Status (PvFrames st ! i) \<noteq> ePvErrCancelled"
      and "\<not> (Status (PvFrames st ! i) = ePvErrSuccess \<and> Context1 (PvFrames st ! i) \<noteq> None)"
  shows "st' = frameCallback_finish i (frameCallback_bad (emit Lock st))"
  using assms by (auto simp: frameCallback_def Let_def split: if_splits option.splits)

lemma frameCallback_finish_simps:
  "trace (frameCallback_finish i st) = trace st @ [CallParamCallbacks, CaptureQueueFrame i, Unlock]"
  "iparams (frameCallback_finish i st) = iparams st"
  "framesRemaining (frameCallback_finish i st) = framesRemaining st"
  "pool (frameCallback_finish i st) = pool st"
  "PvFrames (frameCallback_finish i st) = PvFrames st"
  "pArrays0 (frameCallback_finish i st) = pArrays0 st"
  by (simp_all add: frameCallback_finish_def)

lemma frameCallback_bad_simps:
  "trace (frameCallback_bad st) = trace st @ [ParamWrite PSBadFrameCounter]"
  "iparams (frameCallback_bad st) = (iparams st)(PSBadFrameCounter := iparams st PSBadFrameCounter + 1)"
  "framesRemaining (frameCallback_bad st) = framesRemaining st"
  "pool (frameCallback_bad st) = pool st"
  "PvFrames (frameCallback_bad st) = PvFrames st"
  "pArrays0 (frameCallback_bad st) = pArrays0 st"
  by (simp_all add: frameCallback_bad_def)

lemma delivered_append: "delivered (xs @ ys) = delivered xs @ delivered ys"
  by (induction xs rule: delivered.induct) simp_all

subsection \<open>C10: a cancelled frame\<close>

text \<open>
  Claim C10. For a frame completion whose status is ePvErrCancelled the callback returns
  at once: the state of the driver is the state it was called in, so no counter, no
  parameter, neither \<open>pArrays[0]\<close> nor any frame slot has changed, and the trace is the
  trace it was called with, so the lock was not taken and the frame was not queued again.
\<close>

theorem C10_cancelled_frame_is_ignored:
  assumes "i < length (PvFrames st)" and "Status (PvFrames st ! i) = ePvErrCancelled"
  shows "frameCallback env i st = Inr st"
  using assms by (simp add: frameCallback_def)

theorem C10_cancelled_frame_is_ignored_witness:
  "0 < length (PvFrames (exampleDriver (exampleFrame ePvErrCancelled ePvFmtMono8)))
   \<and> Status (PvFrames (exampleDriver (exampleFrame ePvErrCancelled ePvFmtMono8)) ! 0) = ePvErrCancelled
   \<and> frameCallback exampleEnv 0 (exampleDriver (exampleFrame ePvErrCancelled ePvFmtMono8))
       = Inr (exampleDriver (exampleFrame ePvErrCancelled ePvFmtMono8))"
  using C10_cancelled_frame_is_ignored
          [of 0 "exampleDriver (exampleFrame ePvErrCancelled ePvFmtMono8)" exampleEnv]
  by (simp add: exampleDriver_def exampleFrame_def)

subsection \<open>C1: a frame of an unsupported pixel format\<close>

text \<open>
  Claim C1 says that a completed frame of an unsupported pixel format is dropped and
  counted as a bad frame. The default branch of the switch only prints: the callback goes
  on as for a good frame. For the 640 by 480 frame of format Yuv411 and status
  ePvErrSuccess, the bad-frame counter keeps its value, the image bound to the frame
  (at address 100) replaces the last good image (at address 50) and is handed to the
  image consumer with a colour mode attribute copied from a local variable that was never
  assigned, the image counter goes up and the frames-remaining counter goes down.
\<close>

theorem C1_unsupported_format_is_published:
  "\<exists>st' a. frameCallback exampleEnv 0 (exampleDriver (exampleFrame ePvErrSuccess ePvFmtYuv411)) = Inr st'
     \<and> iparams st' PSBadFrameCounter
         = iparams (exampleDriver (exampleFrame ePvErrSuccess ePvFmtYuv411)) PSBadFrameCounter
     \<and> pArrays0 (exampleDriver (exampleFrame ePvErrSuccess ePvFmtYuv411)) = Some (blankImage 50)
     \<and> pArrays0 st' = Some a \<and> addr a = 100
     \<and> delivered (trace st') = [a]
     \<and> map_of (pAttributeList a) ''ColorMode'' = Some NDAttrIndeterminate
     \<and> iparams st' NDArrayCounter = 1 \<and> framesRemaining st' = 2"
  by (simp add: frameCallback_decode_defs example_defs) (simp add: frameCallback_step_defs)

subsection \<open>C4: the time stamp of a converted Bayer image\<close>

text \<open>
  Claim C4, mode 5, says that the time stamp of the image is the wall-clock time stamped
  on it when the frame is decoded. \<open>updateTimeStamp\<close> stamps the image bound to the frame;
  with a Bayer conversion selected the image that is published is the newly allocated
  one, and its \<open>epicsTS\<close> is what the pool's buffer held. For a Bayer8 frame converted to
  RGB1 in mode PSTimestampTypeIOC, with the clock at 1000 s and a blank buffer from the
  pool (at address 200), the published image has time stamp 0.
\<close>

theorem C4_converted_image_not_stamped:
  "\<exists>st' a. frameCallback exampleEnv 0
              (exampleDriverWith [(PSBayerConvert, PSBayerConvertRGB1),
                                  (PSTimestampType, PSTimestampTypeIOC)]
                 (exampleFrame ePvErrSuccess ePvFmtBayer8))
             = Inr st'
     \<and> pArrays0 st' = Some a \<and> delivered (trace st') = [a]
     \<and> currentTime exampleEnv = \<lparr>secPastEpoch = 1000, nsec = 0\<rparr>
     \<and> timeStamp a = 0 \<and> epicsTS a = \<lparr>secPastEpoch = 0, nsec = 0\<rparr> \<and> addr a = 200
     \<and> uniqueId a = 0 \<and> FrameCount (exampleFrame ePvErrSuccess ePvFmtBayer8) = 7"
  by (simp add: frameCallback_decode_defs example_defs exampleDriverWith_def)
     (simp add: frameCallback_step_defs)

subsection \<open>C7: the frame is queued again\<close>

text \<open>
  Claim C7 says that the frame is queued again with a freshly bound image buffer on the
  failure path too. On that path nothing is allocated: for a frame of status
  ePvErrDataMissing the frame is queued again bound to the buffer it had (at address
  100), and the pool is as it was.
\<close>

theorem C7_counterexample:
  "\<exists>st'. frameCallback exampleEnv 0 (exampleDriver (exampleFrame ePvErrDataMissing ePvFmtMono8)) = Inr st'
     \<and> last (butlast (trace st')) = CaptureQueueFrame 0
     \<and> Context1 (PvFrames st' ! 0) = Some (blankImage 100)
     \<and> ImageBuffer (PvFrames st' ! 0) = Some 101
     \<and> pool st' = pool (exampleDriver (exampleFrame ePvErrDataMissing ePvFmtMono8))"
  by (simp add: frameCallback_decode_defs example_defs) (simp add: frameCallback_step_defs)

text \<open>
  Claim C7, amended. For a frame completion that is not cancelled and on which the
  callback returns, the last calls of the callback are the parameter callbacks, the
  queueing of the same frame slot and the unlock, and the frame is queued nowhere else
  in the callback. When the frame has status ePvErrSuccess and a bound image, the slot is
  bound before that to a buffer which this call allocated from the pool with the
  dimensions of the sensor, type NDInt8 and the maximum frame size: \<open>Context[1]\<close> is the
  new buffer and \<open>ImageBuffer\<close> its data. Otherwise the frame slots and the pool are
  unchanged: the frame is queued again with the binding it had.
\<close>

theorem C7_requeue:
  assumes "i < length (PvFrames st)" and "Status (PvFrames st ! i) \<noteq> ePvErrCancelled"
      and "frameCallback env i st = Inr st'"
  shows "(\<exists>evs. trace st' = trace st @ Lock # evs @ [CallParamCallbacks, CaptureQueueFrame i, Unlock]
            \<and> (\<forall>j. CaptureQueueFrame j \<notin> set evs))
       \<and> (if Status (PvFrames st ! i) = ePvErrSuccess \<and> Context1 (PvFrames st ! i) \<noteq> None
          then \<exists>b p. alloc [unat (sensorWidth st), unat (sensorHeight st)] NDInt8 (maxFrameSize st) p
                        = (Some b, pool st')
                 \<and> (p = pool st \<or> p = tl (pool st))
                 \<and> length (PvFrames st') = length (PvFrames st)
                 \<and> Context1 (PvFrames st' ! i) = Some b
                 \<and> ImageBuffer (PvFrames st' ! i) = Some (pData b)
          else PvFrames st' = PvFrames st \<and> pool st' = pool st)"
proof (cases "Status (PvFrames st ! i) = ePvErrSuccess \<and> Context1 (PvFrames st ! i) \<noteq> None")
  case True
  then obtain img where img: "Context1 (PvFrames st ! i) = Some img" by auto
  from frameCallback_Inr_good[OF assms(3) _ img] True obtain st1 where
    g: "frameCallback_good env i (PvFrames st ! i) img (emit Lock st) = Inr st1"
    and st': "st' = frameCallback_finish i st1" by blast
  from frameCallback_good_Inr[OF g] obtain img2 cm p1 evs b a where
    fmt: "frameCallback_format (fixBayerPattern (PvFrames st ! i)) (iparams st ADBinX)
            (iparams st ADBinY) (iparams st PSBayerConvert) (maxFrameSize st)
            (img\<lparr>uniqueId := of_nat (FrameCount (PvFrames st ! i)), epicsTS := currentTime env\<rparr>)
            (pool st) = Inr (img2, cm, p1, evs)"
    and al: "alloc [unat (sensorWidth st), unat (sensorHeight st)] NDInt8 (maxFrameSize st) p1
               = (Some b, pool st1)"
    and fr: "PvFrames st1 = (PvFrames st)[i := (fixBayerPattern (PvFrames st ! i))
               \<lparr>Context1 := Some b, ImageBuffer := Some (pData b)\<rparr>]"
    and tr: "trace st1 = trace st @ [Lock] @ evs
          @ (if iparams st NDArrayCallbacks \<noteq> 0 then [DoCallbacksGenericPointer a] else [])
          @ (if framesRemaining st1 = 0 then [SetShutter 0, ParamWrite ADAcquire, ParamWrite ADStatus] else [])
          @ [ParamWrite NDArrayCounter] @ (case pArrays0 st of Some old \<Rightarrow> [Release (addr old)] | None \<Rightarrow> [])"
    by auto
  note fp = frameCallback_format_pool[OF fmt]
  define evs' where "evs' = evs
          @ (if iparams st NDArrayCallbacks \<noteq> 0 then [DoCallbacksGenericPointer a] else [])
          @ (if framesRemaining st1 = 0 then [SetShutter 0, ParamWrite ADAcquire, ParamWrite ADStatus] else [])
          @ [ParamWrite NDArrayCounter] @ (case pArrays0 st of Some old \<Rightarrow> [Release (addr old)] | None \<Rightarrow> [])"
  have t1: "trace st' = trace st @ Lock # evs' @ [CallParamCallbacks, CaptureQueueFrame i, Unlock]"
    unfolding st' evs'_def by (simp add: frameCallback_finish_simps tr)
  have t2: "\<forall>j. CaptureQueueFrame j \<notin> set evs'"
    unfolding evs'_def using fp by (auto split: option.splits)
  have "Context1 (PvFrames st' ! i) = Some b \<and> ImageBuffer (PvFrames st' ! i) = Some (pData b)
        \<and> length (PvFrames st') = length (PvFrames st)"
    unfolding st' using assms(1) by (simp add: frameCallback_finish_simps fr)
  moreover have "alloc [unat (sensorWidth st), unat (sensorHeight st)] NDInt8 (maxFrameSize st) p1
                        = (Some b, pool st')"
    unfolding st' using al by (simp add: frameCallback_finish_simps)
  ultimately show ?thesis using True t1 t2 fp by auto
next
  case False
  from frameCallback_Inr_bad[OF assms(3,2) False]
  have st': "st' = frameCallback_finish i (frameCallback_bad (emit Lock st))" .
  have "trace st' = trace st @ Lock # [ParamWrite PSBadFrameCounter]
           @ [CallParamCallbacks, CaptureQueueFrame i, Unlock]"
    unfolding st' by (simp add: frameCallback_finish_simps frameCallback_bad_simps)
  moreover have "\<forall>j. CaptureQueueFrame j \<notin> set [ParamWrite PSBadFrameCounter]" by simp
  moreover have "PvFrames st' = PvFrames st \<and> pool st' = pool st"
    unfolding st' by (simp add: frameCallback_finish_simps frameCallback_bad_simps)
  ultimately have "(\<exists>evs. trace st' = trace st @ Lock # evs @ [CallParamCallbacks, CaptureQueueFrame i, Unlock]
            \<and> (\<forall>j. CaptureQueueFrame j \<notin> set evs))
       \<and> PvFrames st' = PvFrames st \<and> pool st' = pool st"
    by blast
  then show ?thesis using False by simp
qed

theorem C7_requeue_witness:
  "\<exists>st' evs b. frameCallback exampleEnv 0 (exampleDriver (exampleFrame ePvErrSuccess ePvFmtMono8)) = Inr st'
     \<and> trace st' = Lock # evs @ [CallParamCallbacks, CaptureQueueFrame 0, Unlock]
     \<and> Context1 (PvFrames st' ! 0) = Some b
     \<and> ImageBuffer (PvFrames st' ! 0) = Some (pData b)"
proof -
  let ?st = "exampleDriver (exampleFrame ePvErrSuccess ePvFmtMono8)"
  obtain st' where r: "frameCallback exampleEnv 0 ?st = Inr st'"
    by (simp add: frameCallback_decode_defs example_defs) (simp add: frameCallback_step_defs)
  have h: "0 < length (PvFrames ?st)" "Status (PvFrames ?st ! 0) \<noteq> ePvErrCancelled"
    by (simp_all add: exampleDriver_def exampleFrame_def)
  have p: "pool ?st = [Some (blankImage 200), Some (blankImage 300)]" 
     "Status (PvFrames ?st ! 0) = ePvErrSuccess \<and> Context1 (PvFrames ?st ! 0) \<noteq> None"
     "trace ?st = []"
    by (simp_all add: exampleDriver_def exampleFrame_def)
  have "(\<exists>evs. trace st' = Lock # evs @ [CallParamCallbacks, CaptureQueueFrame 0, Unlock])
      \<and> (\<exists>b. Context1 (PvFrames st' ! 0) = Some b \<and> ImageBuffer (PvFrames st' ! 0) = Some (pData b))"
    using C7_requeue [OF h r] by (simp add: p) blast
  with r show ?thesis by blast
qed

subsection \<open>C8: the Bayer pattern attached to an image\<close>

text \<open>
  Claim C8 says that the BayerPattern attribute of every produced image is within the
  enumeration. The callback adds the attribute at line 729; at line 781 \<open>getAttributes\<close>
  copies the attributes of the driver into the image, and an attribute of the same name
  replaces the one that was added. With a driver attribute named BayerPattern of value 77
  and a frame whose pattern is ePvBayerRGGB, the image that is published and handed to the
  image consumer has a BayerPattern attribute of value 77.
\<close>

theorem C8_counterexample:
  "\<exists>st' a. frameCallback exampleEnv 0
              ((exampleDriver (exampleFrame ePvErrSuccess ePvFmtMono8))
                 \<lparr>driverAttributes := [(''BayerPattern'', NDAttrInt32 77)]\<rparr>)
             = Inr st'
     \<and> BayerPattern (exampleFrame ePvErrSuccess ePvFmtMono8) = ePvBayerRGGB
     \<and> BayerPattern (PvFrames st' ! 0) = ePvBayerRGGB
     \<and> pArrays0 st' = Some a \<and> addr a = 100 \<and> delivered (trace st') = [a]
     \<and> map_of (pAttributeList a) ''BayerPattern'' = Some (NDAttrInt32 77)
     \<and> ePvBayerBGGR < (77 :: epicsInt32)"
  by (simp add: frameCallback_decode_defs example_defs) (simp add: frameCallback_step_defs)

text \<open>
  Claim C8, amended. For a frame decoded by the callback (status ePvErrSuccess, a bound
  image, the callback returns), the pattern that the callback attaches is the pattern
  reported in the frame when it is at most ePvBayerBGGR and ePvBayerRGGB otherwise: it is
  within the four values of the enumeration, and the frame holds it too. When the driver
  has no attribute of its own named BayerPattern, that is the value of the BayerPattern
  attribute of the image kept in \<open>pArrays[0]\<close>, which is the only image that this call
  hands to the image consumer.
\<close>

theorem C8_bayer_pattern_in_range:
  assumes "frameCallback env i st = Inr st'"
      and "Status (PvFrames st ! i) = ePvErrSuccess" and "Context1 (PvFrames st ! i) = Some img"
  shows "\<exists>a v. pArrays0 st' = Some a
           \<and> set (delivered (drop (length (trace st)) (trace st'))) \<subseteq> {a}
           \<and> v = (if ePvBayerBGGR < BayerPattern (PvFrames st ! i) then ePvBayerRGGB
                   else BayerPattern (PvFrames st ! i))
           \<and> v \<le> ePvBayerBGGR
           \<and> BayerPattern (PvFrames st' ! i) = v
           \<and> (''BayerPattern'' \<notin> fst ` set (driverAttributes st)
                \<longrightarrow> map_of (pAttributeList a) ''BayerPattern'' = Some (NDAttrInt32 v))"
proof -
  have il: "i < length (PvFrames st)"
    using assms(1) by (auto simp: frameCallback_def split: if_splits)
  from frameCallback_Inr_good[OF assms(1-3)] obtain st1 where
    g: "frameCallback_good env i (PvFrames st ! i) img (emit Lock st) = Inr st1"
    and st': "st' = frameCallback_finish i st1" by blast
  from frameCallback_good_Inr[OF g] obtain img2 cm p1 evs b a where
    fmt: "frameCallback_format (fixBayerPattern (PvFrames st ! i)) (iparams st ADBinX)
            (iparams st ADBinY) (iparams st PSBayerConvert) (maxFrameSize st)
            (img\<lparr>uniqueId := of_nat (FrameCount (PvFrames st ! i)), epicsTS := currentTime env\<rparr>)
            (pool st) = Inr (img2, cm, p1, evs)"
    and fr: "PvFrames st1 = (PvFrames st)[i := (fixBayerPattern (PvFrames st ! i))
               \<lparr>Context1 := Some b, ImageBuffer := Some (pData b)\<rparr>]"
    and pa: "pArrays0 st1 = Some a"
    and a: "a = getAttributes (driverAttributes st)
             ((add ''ColorMode'' (case cm of None \<Rightarrow> NDAttrIndeterminate | Some c \<Rightarrow> NDAttrInt32 c)
                (add ''BayerPattern'' (NDAttrInt32 (BayerPattern (fixBayerPattern (PvFrames st ! i)))) img2))
              \<lparr>timeStamp := fst (frameCallback_timeStamp env (iparams st PSTimestampType)
                 (fixBayerPattern (PvFrames st ! i))
                 (add ''ColorMode'' (case cm of None \<Rightarrow> NDAttrIndeterminate | Some c \<Rightarrow> NDAttrInt32 c)
                (add ''BayerPattern'' (NDAttrInt32 (BayerPattern (fixBayerPattern (PvFrames st ! i)))) img2))
                 (timeStampFrequency st) (lastSyncTime st))\<rparr>)"
    and tr: "trace st1 = trace st @ [Lock] @ evs
          @ (if iparams st NDArrayCallbacks \<noteq> 0 then [DoCallbacksGenericPointer a] else [])
          @ (if framesRemaining st1 = 0 then [SetShutter 0, ParamWrite ADAcquire, ParamWrite ADStatus] else [])
          @ [ParamWrite NDArrayCounter] @ (case pArrays0 st of Some old \<Rightarrow> [Release (addr old)] | None \<Rightarrow> [])"
    by auto
  define v where "v = BayerPattern (fixBayerPattern (PvFrames st ! i))"
  have v: "v = (if 3 < BayerPattern (PvFrames st ! i) then 0 else BayerPattern (PvFrames st ! i))"
    by (simp add: v_def fixBayerPattern_def)
  have le: "v \<le> 3" unfolding v by (simp add: not_less)
  have bp: "BayerPattern (PvFrames st' ! i) = v"
    unfolding st' v_def using il by (simp add: frameCallback_finish_simps fr)
  have look: "map_of (pAttributeList a) ''BayerPattern'' = Some (NDAttrInt32 v)"
    if "''BayerPattern'' \<notin> fst ` set (driverAttributes st)"
    unfolding a v_def using that
    by (simp add: getAttributes_lookup add_def update_conv')
  have dl: "delivered evs = []" using frameCallback_format_pool[OF fmt] by simp
  have "delivered (drop (length (trace st)) (trace st'))
          = (if iparams st NDArrayCallbacks \<noteq> 0 then [a] else [])"
    unfolding st' by (simp add: frameCallback_finish_simps tr dl delivered_append split: option.splits)
  then have "set (delivered (drop (length (trace st)) (trace st'))) \<subseteq> {a}" by auto
  with pa look v le bp show ?thesis unfolding st' by (simp add: frameCallback_finish_simps)
qed

theorem C8_bayer_pattern_in_range_witness:
  "''BayerPattern'' \<notin> fst ` set (driverAttributes
       (exampleDriver ((exampleFrame ePvErrSuccess ePvFmtMono8)\<lparr>BayerPattern := 9\<rparr>)))
   \<and> (\<exists>st' a. frameCallback exampleEnv 0
               (exampleDriver ((exampleFrame ePvErrSuccess ePvFmtMono8)\<lparr>BayerPattern := 9\<rparr>)) = Inr st'
     \<and> pArrays0 st' = Some a
     \<and> BayerPattern (PvFrames st' ! 0) = ePvBayerRGGB
     \<and> map_of (pAttributeList a) ''BayerPattern'' = Some (NDAttrInt32 ePvBayerRGGB))"
proof -
  let ?st = "exampleDriver ((exampleFrame ePvErrSuccess ePvFmtMono8)\<lparr>BayerPattern := 9\<rparr>)"
  obtain st' where r: "frameCallback exampleEnv 0 ?st = Inr st'"
    by (simp add: frameCallback_decode_defs example_defs) (simp add: frameCallback_step_defs)
  have h: "Status (PvFrames ?st ! 0) = ePvErrSuccess"
      "Context1 (PvFrames ?st ! 0) = Some (blankImage 100)"
    by (simp_all add: exampleDriver_def exampleFrame_def)
  have n: "''BayerPattern'' \<notin> fst ` set (driverAttributes ?st)"
      "BayerPattern (PvFrames ?st ! 0) = 9"
    by (simp_all add: exampleDriver_def exampleFrame_def)
  from C8_bayer_pattern_in_range [OF r h] n
  have "\<exists>a. pArrays0 st' = Some a \<and> BayerPattern (PvFrames st' ! 0) = ePvBayerRGGB
      \<and> map_of (pAttributeList a) ''BayerPattern'' = Some (NDAttrInt32 ePvBayerRGGB)"
    by auto
  with r n(1) show ?thesis by blast
qed

subsection \<open>Auxiliary facts about setGeometry\<close>

lemma PvAttrUint32Set_simps:
  "iparams (snd (PvAttrUint32Set cam t n v x)) = iparams (snd x)"
  "trace (snd (PvAttrUint32Set cam t n v x)) = trace (snd x) @ [AttrUint32Set n v]"
  by (simp_all add: PvAttrUint32Set_def Let_def)

lemma sint_add_no_overflow:
  fixes a b :: "32 word"
  assumes "sint a + sint b \<le> 2147483647" and "- 2147483648 \<le> sint a + sint b"
  shows "sint (a + b) = sint a + sint b"
  using assms by (simp add: sint_word_ariths signed_take_bit_int_eq_self)

lemma setGeometry_iparams:
  "iparams (snd (setGeometry cam st)) =
     (let ix = (if sint (iparams st ADMaxSizeX) < sint (iparams st ADMinX + iparams st ADSizeX)
                then (iparams st)(ADSizeX := iparams st ADMaxSizeX - iparams st ADMinX)
                else iparams st)
      in if sint (iparams st ADMaxSizeY) < sint (iparams st ADMinY + iparams st ADSizeY)
         then ix(ADSizeY := iparams st ADMaxSizeY - iparams st ADMinY) else ix)"
  by (simp add: setGeometry_def Let_def PvAttrUint32Set_simps)

text \<open>
  When the sum of offset and size does not overflow \<open>int\<close> and exceeds the maximum size,
  setGeometry leaves the 32-bit difference of the maximum size and the offset in the size
  parameter.
\<close>

lemma setGeometry_clamp_without_overflow:
  "(sint (iparams st ADMinX) + sint (iparams st ADSizeX) \<le> 2147483647
      \<and> sint (iparams st ADMaxSizeX) < sint (iparams st ADMinX) + sint (iparams st ADSizeX)
     \<longrightarrow> iparams (snd (setGeometry cam st)) ADSizeX = iparams st ADMaxSizeX - iparams st ADMinX)
   \<and> (sint (iparams st ADMinY) + sint (iparams st ADSizeY) \<le> 2147483647
      \<and> sint (iparams st ADMaxSizeY) < sint (iparams st ADMinY) + sint (iparams st ADSizeY)
     \<longrightarrow> iparams (snd (setGeometry cam st)) ADSizeY = iparams st ADMaxSizeY - iparams st ADMinY)"
proof -
  have lo: "- 2147483648 \<le> sint (iparams st ADMaxSizeX)"
      "- 2147483648 \<le> sint (iparams st ADMaxSizeY)"
    using sint_ge[of "iparams st ADMaxSizeX"] sint_ge[of "iparams st ADMaxSizeY"] by simp_all
  have x: "sint (iparams st ADMinX + iparams st ADSizeX)
             = sint (iparams st ADMinX) + sint (iparams st ADSizeX)"
    if "sint (iparams st ADMinX) + sint (iparams st ADSizeX) \<le> 2147483647"
       "sint (iparams st ADMaxSizeX) < sint (iparams st ADMinX) + sint (iparams st ADSizeX)"
    using that lo by (intro sint_add_no_overflow) linarith+
  have y: "sint (iparams st ADMinY + iparams st ADSizeY)
             = sint (iparams st ADMinY) + sint (iparams st ADSizeY)"
    if "sint (iparams st ADMinY) + sint (iparams st ADSizeY) \<le> 2147483647"
       "sint (iparams st ADMaxSizeY) < sint (iparams st ADMinY) + sint (iparams st ADSizeY)"
    using that lo by (intro sint_add_no_overflow) linarith+
  show ?thesis using x y by (auto simp: setGeometry_iparams Let_def)
qed

subsection \<open>C6: disconnectCamera twice\<close>

lemma run_emits:
  "run (map emit es) st = st\<lparr>trace := trace st @ es\<rparr>"
  by (induction es arbitrary: st) (simp_all add: emit_def)

lemma disconnectCamera_frames_fields:
  "PvHandle (disconnectCamera_frames is st) = PvHandle st"
  "PvApiInitialized (disconnectCamera_frames is st) = PvApiInitialized st"
  "length (PvFrames (disconnectCamera_frames is st)) = length (PvFrames st)"
  "cameraId (disconnectCamera_frames is st) = cameraId st"
  "PvCameraInfo (disconnectCamera_frames is st) = PvCameraInfo st"
  by (induction "is" arbitrary: st; simp add: Let_def emit_def split: option.splits)+

lemma disconnectCamera_frames_nth:
  assumes "j < length (PvFrames st)"
  shows "PvFrames (disconnectCamera_frames is st) ! j =
           (if j \<in> set is then (PvFrames st ! j)\<lparr>Context1 := None\<rparr> else PvFrames st ! j)"
  using assms
proof (induction "is" arbitrary: st)
  case Nil
  then show ?case by simp
next
  case (Cons i "is")
  let ?st1 = "case Context1 (PvFrames st ! i) of Some pImage \<Rightarrow> emit (Release (addr pImage)) st
                 | None \<Rightarrow> st"
  let ?st2 = "?st1\<lparr>PvFrames := (PvFrames ?st1)[i := (PvFrames st ! i)\<lparr>Context1 := None\<rparr>]\<rparr>"
  have f1: "PvFrames ?st1 = PvFrames st" by (simp add: emit_def split: option.splits)
  have len2: "j < length (PvFrames ?st2)" using Cons.prems by (simp add: f1)
  have n2: "PvFrames ?st2 ! j = (if i = j then (PvFrames st ! j)\<lparr>Context1 := None\<rparr> else PvFrames st ! j)"
    using Cons.prems by (simp add: f1 nth_list_update)
  have "PvFrames (disconnectCamera_frames (i # is) st) ! j
          = PvFrames (disconnectCamera_frames is ?st2) ! j"
    by (simp add: Let_def)
  also have "\<dots> = (if j \<in> set is then (PvFrames ?st2 ! j)\<lparr>Context1 := None\<rparr> else PvFrames ?st2 ! j)"
    using Cons.IH[OF len2] .
  finally show ?case unfolding n2 by auto
qed

lemma disconnectCamera_frames_trace:
  assumes "distinct is" and "\<forall>i\<in>set is. i < length (PvFrames st)"
  shows "trace (disconnectCamera_frames is st) = trace st @
           concat (map (\<lambda>i. case Context1 (PvFrames st ! i) of Some a \<Rightarrow> [Release (addr a)]
                              | None \<Rightarrow> []) is)"
  using assms
proof (induction "is" arbitrary: st)
  case Nil
  then show ?case by simp
next
  case (Cons i "is")
  let ?st1 = "case Context1 (PvFrames st ! i) of Some pImage \<Rightarrow> emit (Release (addr pImage)) st
                 | None \<Rightarrow> st"
  let ?st2 = "?st1\<lparr>PvFrames := (PvFrames ?st1)[i := (PvFrames st ! i)\<lparr>Context1 := None\<rparr>]\<rparr>"
  have f1: "PvFrames ?st1 = PvFrames st" by (simp add: emit_def split: option.splits)
  have t1: "trace ?st2 = trace st @ (case Context1 (PvFrames st ! i) of Some a \<Rightarrow> [Release (addr a)]
                              | None \<Rightarrow> [])"
    by (simp add: emit_def split: option.splits)
  have same: "\<forall>k\<in>set is. PvFrames ?st2 ! k = PvFrames st ! k"
    using Cons.prems by (auto simp: f1 nth_list_update)
  have "trace (disconnectCamera_frames (i # is) st) = trace (disconnectCamera_frames is ?st2)"
    by (simp add: Let_def)
  also have "\<dots> = trace ?st2 @ concat (map (\<lambda>i. case Context1 (PvFrames ?st2 ! i) of
                     Some a \<Rightarrow> [Release (addr a)] | None \<Rightarrow> []) is)"
    using Cons.prems by (intro Cons.IH) (auto simp: f1)
  also have "map (\<lambda>i. case Context1 (PvFrames ?st2 ! i) of
                     Some a \<Rightarrow> [Release (addr a)] | None \<Rightarrow> []) is
           = map (\<lambda>i. case Context1 (PvFrames st ! i) of
                     Some a \<Rightarrow> [Release (addr a)] | None \<Rightarrow> []) is"
    using same by (intro map_cong) auto
  finally show ?case by (simp add: t1)
qed

lemma disconnectCamera_connected:
  assumes "PvApiInitialized st" and "PvHandle st \<noteq> None"
  shows "disconnectCamera cam st =
           (exceptionDisconnect cam,
            emit ExceptionDisconnect
              ((disconnectCamera_frames [0 ..< nat (sint (maxPvAPIFrames st))]
                 (st\<lparr>trace := trace st @ [Unlock, CaptureQueueClear, CaptureEnd, CameraClose, Lock]\<rparr>))
               \<lparr>PvHandle := None\<rparr>))"
proof -
  have "run [emit Unlock, emit CaptureQueueClear, emit CaptureEnd, emit CameraClose, emit Lock] st
          = st\<lparr>trace := trace st @ [Unlock, CaptureQueueClear, CaptureEnd, CameraClose, Lock]\<rparr>"
    using run_emits[of "[Unlock, CaptureQueueClear, CaptureEnd, CameraClose, Lock]" st] by simp
  then show ?thesis using assms by (auto simp: disconnectCamera_def Let_def)
qed

lemma disconnectCamera_fields:
  assumes "PvApiInitialized st"
  shows "PvHandle (snd (disconnectCamera cam st)) = None
       \<and> PvApiInitialized (snd (disconnectCamera cam st))
       \<and> cameraId (snd (disconnectCamera cam st)) = cameraId st
       \<and> PvCameraInfo (snd (disconnectCamera cam st)) = PvCameraInfo st"
proof (cases "PvHandle st = None")
  case True
  then show ?thesis using assms by (simp add: disconnectCamera_def)
next
  case False
  show ?thesis using assms
    by (simp add: disconnectCamera_connected[OF assms False] disconnectCamera_frames_fields emit_def)
qed

text \<open>
  Claim C6 says that a second call of disconnect returns success. When the PvAPI library
  is not initialised, every call of disconnectCamera returns asynError.
\<close>

theorem C6_counterexample:
  "fst (disconnectCamera (exampleCamera [] None)
         (snd (disconnectCamera (exampleCamera [] None)
                 ((exampleDriver (exampleFrame ePvErrSuccess ePvFmtMono8))
                    \<lparr>PvApiInitialized := False, PvHandle := None\<rparr>)))) = asynError"
  by (simp add: disconnectCamera_def)

text \<open>
  Claim C6, amended. With the PvAPI library initialised and a frame slot array of
  \<open>maxPvAPIFrames\<close> slots, disconnectCamera on a connected driver leaves the handle null
  and \<open>Context[1]\<close> of every frame slot null (\<open>ImageBuffer\<close> is not cleared); between the
  lock being taken again and the disconnect exception it releases the image bound to each
  slot, in the order of the slots, and nothing else. A second call, whatever the camera
  answers, returns asynSuccess and leaves the state as the first call left it.
\<close>

theorem C6_disconnect_idempotent:
  assumes "PvApiInitialized st" and "length (PvFrames st) = nat (sint (maxPvAPIFrames st))"
      and "PvHandle st \<noteq> None"
  shows "PvHandle (snd (disconnectCamera cam st)) = None
       \<and> list_all (\<lambda>f. Context1 f = None) (PvFrames (snd (disconnectCamera cam st)))
       \<and> trace (snd (disconnectCamera cam st)) =
           trace st @ [Unlock, CaptureQueueClear, CaptureEnd, CameraClose, Lock]
             @ concat (map (\<lambda>f. case Context1 f of Some a \<Rightarrow> [Release (addr a)] | None \<Rightarrow> [])
                        (PvFrames st))
             @ [ExceptionDisconnect]
       \<and> disconnectCamera cam' (snd (disconnectCamera cam st))
           = (asynSuccess, snd (disconnectCamera cam st))"
proof -
  let ?n = "nat (sint (maxPvAPIFrames st))"
  let ?st1 = "st\<lparr>trace := trace st @ [Unlock, CaptureQueueClear, CaptureEnd, CameraClose, Lock]\<rparr>"
  let ?st2 = "disconnectCamera_frames [0 ..< ?n] ?st1"
  note d = disconnectCamera_connected[OF assms(1,3), of cam]
  have len: "length (PvFrames ?st2) = ?n"
    using assms(2) by (simp add: disconnectCamera_frames_fields)
  have nth: "Context1 (PvFrames ?st2 ! j) = None" if "j < ?n" for j
    using that assms(2) disconnectCamera_frames_nth[of j ?st1 "[0 ..< ?n]"] by simp
  have all: "list_all (\<lambda>f. Context1 f = None) (PvFrames ?st2)"
    unfolding list_all_length using nth len by simp
  have "map (\<lambda>i. case Context1 (PvFrames st ! i) of Some a \<Rightarrow> [Release (addr a)] | None \<Rightarrow> []) [0 ..< ?n]
         = map (\<lambda>f. case Context1 f of Some a \<Rightarrow> [Release (addr a)] | None \<Rightarrow> []) (PvFrames st)"
    using assms(2) by (intro nth_equalityI) simp_all
  then have tr: "trace ?st2 = trace ?st1 @
      concat (map (\<lambda>f. case Context1 f of Some a \<Rightarrow> [Release (addr a)] | None \<Rightarrow> []) (PvFrames st))"
    using disconnectCamera_frames_trace[of "[0 ..< ?n]" ?st1] assms(2) by simp
  have h: "PvHandle (snd (disconnectCamera cam st)) = None"
    and i: "PvApiInitialized (snd (disconnectCamera cam st))"
    using disconnectCamera_fields[OF assms(1)] by simp_all
  have again: "disconnectCamera cam' (snd (disconnectCamera cam st))
           = (asynSuccess, snd (disconnectCamera cam st))"
    using h i by (simp add: disconnectCamera_def)
  show ?thesis
    using h again all tr by (simp add: d emit_def)
qed

theorem C6_disconnect_idempotent_witness:
  "PvApiInitialized (exampleDriver (exampleFrame ePvErrSuccess ePvFmtMono8))
   \<and> length (PvFrames (exampleDriver (exampleFrame ePvErrSuccess ePvFmtMono8)))
       = nat (sint (maxPvAPIFrames (exampleDriver (exampleFrame ePvErrSuccess ePvFmtMono8))))
   \<and> PvHandle (exampleDriver (exampleFrame ePvErrSuccess ePvFmtMono8)) \<noteq> None
   \<and> PvHandle (snd (disconnectCamera (exampleCamera [] None)
                      (exampleDriver (exampleFrame ePvErrSuccess ePvFmtMono8)))) = None
   \<and> trace (snd (disconnectCamera (exampleCamera [] None)
                      (exampleDriver (exampleFrame ePvErrSuccess ePvFmtMono8))))
       = [Unlock, CaptureQueueClear, CaptureEnd, CameraClose, Lock, Release 100, ExceptionDisconnect]
   \<and> disconnectCamera (exampleCamera [] None)
         (snd (disconnectCamera (exampleCamera [] None)
                 (exampleDriver (exampleFrame ePvErrSuccess ePvFmtMono8))))
       = (asynSuccess, snd (disconnectCamera (exampleCamera [] None)
                              (exampleDriver (exampleFrame ePvErrSuccess ePvFmtMono8))))"
proof -
  let ?st = "exampleDriver (exampleFrame ePvErrSuccess ePvFmtMono8)"
  have h: "PvApiInitialized ?st" "length (PvFrames ?st) = nat (sint (maxPvAPIFrames ?st))"
      "PvHandle ?st \<noteq> None"
    by (simp_all add: exampleDriver_def)
  have f: "PvFrames ?st = [exampleFrame ePvErrSuccess ePvFmtMono8]" "trace ?st = []"
    by (simp_all add: exampleDriver_def)
  have g: "Context1 (exampleFrame ePvErrSuccess ePvFmtMono8) = Some (blankImage 100)"
      "addr (blankImage 100) = 100"
    by (simp_all add: exampleFrame_def blankImage_def)
  show ?thesis
    using h C6_disconnect_idempotent [OF h, of "exampleCamera [] None" "exampleCamera [] None"]
    by (simp add: f g)
qed

subsection \<open>C2: the retry loop of connectCamera\<close>

lemma connectCamera_retry_denied:
  assumes "\<forall>n. fst (cameraInfoEx cam n) = 0
               \<and> PermittedAccess (snd (cameraInfoEx cam n)) AND ePvAccessMaster = 0"
      and "PermittedAccess (PvCameraInfo st) AND ePvAccessMaster = 0"
      and "r < 30"
  shows "\<not> fst (connectCamera_retry cam r st)
       \<and> trace (snd (connectCamera_retry cam r st))
           = trace st @ concat (replicate (30 - r) [ThreadSleep CONNECT_RETRY_INTERVAL, CameraInfoPoll])
       \<and> PermittedAccess (PvCameraInfo (snd (connectCamera_retry cam r st))) AND ePvAccessMaster = 0
       \<and> PvHandle (snd (connectCamera_retry cam r st)) = PvHandle st"
  using assms(2,3)
proof (induction "30 - r" arbitrary: r st)
  case 0
  then show ?case by simp
next
  case (Suc k)
  let ?st2 = "(emit CameraInfoPoll (emit (ThreadSleep CONNECT_RETRY_INTERVAL) st))
                \<lparr>PvCameraInfo := snd (cameraInfoEx cam (Suc r))\<rparr>"
  have ok: "fst (cameraInfoEx cam (Suc r)) = 0"
    and den: "PermittedAccess (PvCameraInfo ?st2) AND ePvAccessMaster = 0"
    using assms(1) by simp_all
  have t2: "trace ?st2 = trace st @ [ThreadSleep CONNECT_RETRY_INTERVAL, CameraInfoPoll]"
    and h2: "PvHandle ?st2 = PvHandle st"
    by (simp_all add: emit_def)
  show ?case
  proof (cases "r = 29")
    case True
    have "connectCamera_retry cam r st = (False, ?st2)"
      using Suc.prems(1) ok True by (subst connectCamera_retry.simps) (simp add: Let_def)
    then show ?thesis using den t2 h2 True by simp
  next
    case False
    then have lt: "Suc r < 30" and k: "k = 30 - Suc r" using Suc.prems(2) Suc.hyps(2) by simp_all
    have eq: "connectCamera_retry cam r st = connectCamera_retry cam (Suc r) ?st2"
      using Suc.prems(1) ok lt by (subst connectCamera_retry.simps) (simp add: Let_def)
    have rep: "replicate (30 - r) [ThreadSleep CONNECT_RETRY_INTERVAL, CameraInfoPoll]
          = [ThreadSleep CONNECT_RETRY_INTERVAL, CameraInfoPoll]
              # replicate (30 - Suc r) [ThreadSleep CONNECT_RETRY_INTERVAL, CameraInfoPoll]"
      using lt by (simp add: Suc_diff_Suc flip: replicate_Suc)
    show ?thesis
      using Suc.hyps(1)[OF k den lt] unfolding eq rep by (simp add: t2 h2)
  qed
qed

text \<open>
  Claim C2. When the PvAPI library is initialised, the camera identifier resolves, and
  every poll of the camera information succeeds and reports no master access,
  connectCamera returns asynError with the handle null, and after the disconnect with
  which it starts it does exactly this: the first poll, then CONNECT_RETRY_COUNT = 30
  times a sleep of CONNECT_RETRY_INTERVAL followed by a poll. The camera is not opened.
\<close>

theorem C2_access_retry_bound:
  assumes init: "PvApiInitialized st"
      and res: "list_all isdigit (cameraId st) \<or> fst (hostToIPAddr cam (cameraId st)) = 0"
      and den: "\<forall>n. fst (cameraInfoEx cam n) = 0
               \<and> PermittedAccess (snd (cameraInfoEx cam n)) AND ePvAccessMaster = 0"
  shows "fst (connectCamera cam env st) = asynError
       \<and> PvHandle (snd (connectCamera cam env st)) = None
       \<and> trace (snd (connectCamera cam env st))
           = trace (snd (disconnectCamera cam st)) @ CameraInfoPoll
               # concat (replicate (unat CONNECT_RETRY_COUNT)
                           [ThreadSleep CONNECT_RETRY_INTERVAL, CameraInfoPoll])"
proof -
  define st1 where "st1 = snd (disconnectCamera cam st)"
  have d: "PvHandle st1 = None" "PvApiInitialized st1" "cameraId st1 = cameraId st"
    using disconnectCamera_fields[OF init, of cam] by (simp_all add: st1_def)
  define st4 where "st4 = (if list_all isdigit (cameraId st)
       then emit CameraInfoPoll
              (st1\<lparr>cameraUniqueId := unat (scast (atoi (cameraId st)) :: 64 word),
                   PvCameraInfo := snd (cameraInfoEx cam 0)\<rparr>)
       else (emit CameraInfoPoll (st1\<lparr>uniqueIP := snd (hostToIPAddr cam (cameraId st)),
                                     PvCameraInfo := snd (cameraInfoEx cam 0)\<rparr>))
              \<lparr>cameraUniqueId := UniqueId (snd (cameraInfoEx cam 0))\<rparr>)"
  have a4: "PermittedAccess (PvCameraInfo st4) AND ePvAccessMaster = 0"
    using den by (simp add: st4_def emit_def)
  have t4: "trace st4 = trace st1 @ [CameraInfoPoll]" and h4: "PvHandle st4 = None"
    using d by (simp_all add: st4_def emit_def)
  have r: "\<not> fst (connectCamera_retry cam 0 st4)"
    "trace (snd (connectCamera_retry cam 0 st4))
       = trace st4 @ concat (replicate 30 [ThreadSleep CONNECT_RETRY_INTERVAL, CameraInfoPoll])"
    "PermittedAccess (PvCameraInfo (snd (connectCamera_retry cam 0 st4))) AND ePvAccessMaster = 0"
    "PvHandle (snd (connectCamera_retry cam 0 st4)) = PvHandle st4"
    using connectCamera_retry_denied[OF den a4, of 0] by simp_all
  have ok0: "fst (cameraInfoEx cam 0) = 0" using den by simp
  have "connectCamera cam env st = (asynError, snd (connectCamera_retry cam 0 st4))"
  proof (cases "list_all isdigit (cameraId st)")
    case True
    then have s4: "st4 = emit CameraInfoPoll
        (st1\<lparr>cameraUniqueId := unat (scast (atoi (cameraId st)) :: 64 word),
             PvCameraInfo := snd (cameraInfoEx cam 0)\<rparr>)"
      by (simp add: st4_def)
    show ?thesis
      unfolding connectCamera_def Let_def st1_def [symmetric]
      using init True ok0 r(1,3) by (simp add: d s4 [symmetric])
  next
    case False
    then have s4: "st4 = (emit CameraInfoPoll (st1\<lparr>uniqueIP := snd (hostToIPAddr cam (cameraId st)),
                                     PvCameraInfo := snd (cameraInfoEx cam 0)\<rparr>))
              \<lparr>cameraUniqueId := UniqueId (snd (cameraInfoEx cam 0))\<rparr>"
      by (simp add: st4_def)
    have pc: "PvCameraInfo (emit CameraInfoPoll (st1\<lparr>uniqueIP := snd (hostToIPAddr cam (cameraId st)),
                                     PvCameraInfo := snd (cameraInfoEx cam 0)\<rparr>)) = snd (cameraInfoEx cam 0)"
      by (simp add: emit_def)
    show ?thesis
      unfolding connectCamera_def Let_def st1_def [symmetric]
      using init False res ok0 r(1,3) by (simp add: d pc s4 [symmetric])
  qed
  then show ?thesis using r by (simp add: t4 h4 st1_def)
qed

theorem C2_access_retry_bound_witness:
  "PvApiInitialized (exampleDriver (exampleFrame ePvErrSuccess ePvFmtMono8))
   \<and> list_all isdigit (cameraId (exampleDriver (exampleFrame ePvErrSuccess ePvFmtMono8)))
   \<and> fst (cameraInfoEx (exampleCamera [] None) 30) = 0
   \<and> PermittedAccess (snd (cameraInfoEx (exampleCamera [] None) 30)) AND ePvAccessMaster = 0
   \<and> fst (connectCamera (exampleCamera [] None) exampleEnv
             (exampleDriver (exampleFrame ePvErrSuccess ePvFmtMono8))) = asynError
   \<and> PvHandle (snd (connectCamera (exampleCamera [] None) exampleEnv
             (exampleDriver (exampleFrame ePvErrSuccess ePvFmtMono8)))) = None
   \<and> trace (snd (connectCamera (exampleCamera [] None) exampleEnv
             (exampleDriver (exampleFrame ePvErrSuccess ePvFmtMono8))))
       = trace (snd (disconnectCamera (exampleCamera [] None)
                       (exampleDriver (exampleFrame ePvErrSuccess ePvFmtMono8))))
           @ CameraInfoPoll # concat (replicate 30 [ThreadSleep 1, CameraInfoPoll])"
proof -
  let ?st = "exampleDriver (exampleFrame ePvErrSuccess ePvFmtMono8)"
  let ?cam = "exampleCamera [] None"
  have h: "PvApiInitialized ?st"
      "list_all isdigit (cameraId ?st) \<or> fst (hostToIPAddr ?cam (cameraId ?st)) = 0"
      "\<forall>n. fst (cameraInfoEx ?cam n) = 0
            \<and> PermittedAccess (snd (cameraInfoEx ?cam n)) AND ePvAccessMaster = 0"
    by (simp_all add: exampleDriver_def exampleCamera_def isdigit_def)
  have d: "list_all isdigit (cameraId ?st)" by (simp add: exampleDriver_def isdigit_def)
  show ?thesis
    using h(1) d h(3) C2_access_retry_bound [OF h, of exampleEnv]
    by simp
qed

subsection \<open>C9: a failing attribute read in a batch\<close>

lemma step_trace:
  "trace (drv (getUint32 cam n b)) = trace (drv b) @ [AttrGet n]"
  "trace (drv (getFloat32 cam n b)) = trace (drv b) @ [AttrGet n]"
  "trace (drv (getEnum cam n b)) = trace (drv b) @ [AttrGet n]"
  "trace (drv (getString cam n b)) = trace (drv b) @ [AttrGet n]"
  "trace (drv (putInt p vi b)) = trace (drv b) @ [ParamWrite p]"
  "trace (drv (putDouble p vd b)) = trace (drv b) @ [ParamWrite p]"
  "trace (drv (putString p vs b)) = trace (drv b) @ [ParamWrite p]"
  "trace (drv (putMode t p b)) = trace (drv b) @ [ParamWrite p]"
  "trace (drv (putOnOff p b)) = trace (drv b) @ [ParamWrite p]"
  "trace (drv (putImageMode b)) = trace (drv b) @ [ParamWrite ADImageMode]"
  "trace (drv (unsupportedIfNotFound b)) = trace (drv b)"
  "trace (drv (zeroIfNotFound p (putMode t p) b)) = trace (drv b) @ [ParamWrite p]"
  "trace (drv (zeroIfNotFound p (putOnOff p) b)) = trace (drv b) @ [ParamWrite p]"
  by (simp_all add: getUint32_def getFloat32_def getEnum_def getString_def putInt_def
        putDouble_def putString_def putMode_def putOnOff_def putImageMode_def
        unsupportedIfNotFound_def zeroIfNotFound_def emit_def setIntegerParam_def
        setDoubleParam_def setStringParam_def split: option.splits)

lemma step_framesRemaining:
  "framesRemaining (drv (getUint32 cam n b)) = framesRemaining (drv b)"
  "framesRemaining (drv (getFloat32 cam n b)) = framesRemaining (drv b)"
  "framesRemaining (drv (getEnum cam n b)) = framesRemaining (drv b)"
  "framesRemaining (drv (getString cam n b)) = framesRemaining (drv b)"
  "framesRemaining (drv (putInt p vi b)) = framesRemaining (drv b)"
  "framesRemaining (drv (putDouble p vd b)) = framesRemaining (drv b)"
  "framesRemaining (drv (putString p vs b)) = framesRemaining (drv b)"
  "framesRemaining (drv (putMode t p b)) = framesRemaining (drv b)"
  "framesRemaining (drv (putOnOff p b)) = framesRemaining (drv b)"
  "framesRemaining (drv (putImageMode b)) = framesRemaining (drv b)"
  by (simp_all add: getUint32_def getFloat32_def getEnum_def getString_def putInt_def
        putDouble_def putString_def putMode_def putOnOff_def putImageMode_def
        emit_def setIntegerParam_def
        setDoubleParam_def setStringParam_def split: option.splits)

lemma step_status:
  "status (getUint32 cam n b) = status b OR fst (uint32Attr cam n)"
  "status (getFloat32 cam n b) = status b OR fst (float32Attr cam n)"
  "status (getEnum cam n b) = status b OR fst (enumAttr cam n)"
  "status (getString cam n b) = status b OR fst (stringAttr cam n)"
  "status (putInt p vi b) = status b"
  "status (putDouble p vd b) = status b"
  "status (putString p vs b) = status b"
  "status (putMode t p b) = status b OR (if findMode t (buffer b) 0 = None then asynError else 0)"
  "status (putOnOff p b) = status b OR (if buffer b = ''Off'' \<or> buffer b = ''On'' then 0 else asynError)"
  "status (putImageMode b) = status b OR
      (if buffer b \<in> {''SingleFrame'', ''MultiFrame'', ''Recorder'', ''Continuous''} then 0 else asynError)"
  "status (geometry cam b) = status b OR fst (getGeometry cam (drv b))"
  by (simp_all add: getUint32_def getFloat32_def getEnum_def getString_def putInt_def
        putDouble_def putString_def putMode_def putOnOff_def putImageMode_def geometry_def
        split: option.splits)

lemma step_buffer:
  "buffer (getUint32 cam n b) = buffer b"
  "buffer (getFloat32 cam n b) = buffer b"
  "buffer (getEnum cam n b) = snd (enumAttr cam n)"
  "buffer (getString cam n b) = snd (stringAttr cam n)"
  "buffer (putInt p vi b) = buffer b"
  "buffer (putDouble p vd b) = buffer b"
  "buffer (putString p vs b) = buffer b"
  "buffer (putMode t p b) = buffer b"
  "buffer (putOnOff p b) = buffer b"
  "buffer (putImageMode b) = buffer b"
  "buffer (geometry cam b) = buffer b"
  "buffer (unsupportedIfNotFound b) = (if status b = ePvErrNotFound then ''Unsupported parameter'' else buffer b)"
  by (simp_all add: getUint32_def getFloat32_def getEnum_def getString_def putInt_def
        putDouble_def putString_def putMode_def putOnOff_def putImageMode_def geometry_def
        unsupportedIfNotFound_def split: option.splits)

lemma run_setIntegerParam_trace:
  "trace (run (map emit es @ map (\<lambda>(p, v). setIntegerParam p v) pvs) st)
     = trace st @ es @ map (ParamWrite \<circ> fst) pvs"
proof (induction es arbitrary: st)
  case Nil
  show ?case by (induction pvs arbitrary: st) (auto simp: setIntegerParam_def)
next
  case (Cons e es)
  then show ?case by (simp add: emit_def)
qed

lemma getGeometry_trace:
  "trace (snd (getGeometry cam st)) = trace st @
     [AttrGet ''BinningX'', AttrGet ''BinningY'', AttrGet ''RegionX'', AttrGet ''RegionY'',
      AttrGet ''Width'', AttrGet ''Height'', ParamWrite ADBinX, ParamWrite ADBinY,
      ParamWrite ADMinX, ParamWrite ADMinY, ParamWrite ADSizeX, ParamWrite ADSizeY,
      ParamWrite NDArraySizeX, ParamWrite NDArraySizeY]"
  by (simp add: getGeometry_def Let_def emit_def setIntegerParam_def)

lemma getGeometry_framesRemaining:
  "framesRemaining (snd (getGeometry cam st)) = framesRemaining st"
  by (simp add: getGeometry_def Let_def emit_def setIntegerParam_def)

lemma getGeometry_status:
  "fst (getGeometry cam st) =
     (if fst (uint32Attr cam ''BinningX'') \<noteq> ePvErrNotFound then fst (uint32Attr cam ''BinningX'') else 0)
     OR (if fst (uint32Attr cam ''BinningY'') \<noteq> ePvErrNotFound then fst (uint32Attr cam ''BinningY'') else 0)
     OR fst (uint32Attr cam ''RegionX'') OR fst (uint32Attr cam ''RegionY'')
     OR fst (uint32Attr cam ''Width'') OR fst (uint32Attr cam ''Height'')"
  by (simp add: getGeometry_def Let_def word_bw_assocs)

lemma geometry_trace:
  "trace (drv (geometry cam b)) = trace (drv b) @
     [AttrGet ''BinningX'', AttrGet ''BinningY'', AttrGet ''RegionX'', AttrGet ''RegionY'',
      AttrGet ''Width'', AttrGet ''Height'', ParamWrite ADBinX, ParamWrite ADBinY,
      ParamWrite ADMinX, ParamWrite ADMinY, ParamWrite ADSizeX, ParamWrite ADSizeY,
      ParamWrite NDArraySizeX, ParamWrite NDArraySizeY]"
  "framesRemaining (drv (geometry cam b)) = framesRemaining (drv b)"
  by (simp_all add: geometry_def getGeometry_trace getGeometry_framesRemaining)


lemma readParameters_run_trace:
  "trace (drv (readParameters_run cam st)) = trace st @ butlast readParameters_calls"
  by (simp add: readParameters_run_def readParameters_calls_def step_trace geometry_trace)

lemma readParameters_framesRemaining:
  "framesRemaining (snd (readParameters cam st)) = framesRemaining st"
  by (simp add: readParameters_def readParameters_run_def step_framesRemaining geometry_trace emit_def)



lemmas readParameters_status_simps = readParameters_def readParameters_run_def step_status
  step_buffer getGeometry_status or.assoc or.commute or.left_commute




subsection \<open>C3: the geometry clamp\<close>

lemma step_iparams:
  "iparams (drv (getUint32 cam n b)) = iparams (drv b)"
  "iparams (drv (getFloat32 cam n b)) = iparams (drv b)"
  "iparams (drv (getEnum cam n b)) = iparams (drv b)"
  "iparams (drv (putDouble p vd b)) = iparams (drv b)"
  "p \<noteq> q \<Longrightarrow> iparams (drv (putInt p vi b)) q = iparams (drv b) q"
  "p \<noteq> q \<Longrightarrow> iparams (drv (putMode t p b)) q = iparams (drv b) q"
  "ADImageMode \<noteq> q \<Longrightarrow> iparams (drv (putImageMode b)) q = iparams (drv b) q"
  by (simp_all add: getUint32_def getFloat32_def getEnum_def putInt_def putDouble_def
        putMode_def putImageMode_def emit_def setIntegerParam_def setDoubleParam_def
        split: option.splits)

lemma geometry_size:
  "iparams (drv (geometry cam b)) ADSizeX
     = snd (uint32Attr cam ''Width'')
         * (if fst (uint32Attr cam ''BinningX'') \<noteq> 0 then 1 else snd (uint32Attr cam ''BinningX''))"
  "iparams (drv (geometry cam b)) ADSizeY
     = snd (uint32Attr cam ''Height'')
         * (if fst (uint32Attr cam ''BinningY'') \<noteq> 0 then 1 else snd (uint32Attr cam ''BinningY''))"
  by (simp_all add: geometry_def getGeometry_def Let_def emit_def setIntegerParam_def)

text \<open>
  The size that readParameters leaves in the parameter is the one that the camera
  reports, in binned pixels, times the binning that the camera reports.
\<close>

lemma readParameters_size:
  "iparams (snd (readParameters cam st)) ADSizeX
     = snd (uint32Attr cam ''Width'')
         * (if fst (uint32Attr cam ''BinningX'') \<noteq> 0 then 1 else snd (uint32Attr cam ''BinningX''))"
  "iparams (snd (readParameters cam st)) ADSizeY
     = snd (uint32Attr cam ''Height'')
         * (if fst (uint32Attr cam ''BinningY'') \<noteq> 0 then 1 else snd (uint32Attr cam ''BinningY''))"
  by (simp_all add: readParameters_def readParameters_run_def step_iparams geometry_size emit_def)

lemma overflowCamera_simps:
  "uint32Set overflowCamera n v = ePvErrSuccess"
  "fst (uint32Attr overflowCamera n) = ePvErrSuccess"
  "snd (uint32Attr overflowCamera ''Width'') = 2147483647"
  "snd (uint32Attr overflowCamera ''BinningX'') = 1"
  "fst (enumAttr overflowCamera n) = ePvErrSuccess"
  "fst (float32Attr overflowCamera n) = ePvErrSuccess"
  "snd (enumAttr overflowCamera ''PixelFormat'') = ''Mono8''"
  "snd (enumAttr overflowCamera ''AcquisitionMode'') = ''MultiFrame''"
  "snd (enumAttr overflowCamera ''FrameStartTriggerMode'') = ''Freerun''"
  "snd (enumAttr overflowCamera ''ExposureMode'') = ''Manual''"
  "snd (enumAttr overflowCamera ''GainMode'') = ''Manual''"
  by (simp_all add: overflowCamera_def reporting_def exampleCamera_def split: option.splits)

lemma PvAttrUint32Set_overflowCamera:
  "fst (PvAttrUint32Set overflowCamera t n v x) = fst x"
  by (simp add: PvAttrUint32Set_def overflowCamera_simps)

lemma readParameters_overflowCamera:
  "fst (readParameters overflowCamera st) = asynSuccess"
  by (simp add: readParameters_status_simps overflowCamera_simps PSTriggerStartModes_def
        PSExposureModes_def PSGainModes_def)

lemma offsetRegion_simps:
  "iparams offsetRegion ADBinX = 1" "iparams offsetRegion ADBinY = 1"
  "iparams offsetRegion ADMinX = 100" "iparams offsetRegion ADMinY = 0"
  "iparams offsetRegion ADSizeX = 540" "iparams offsetRegion ADSizeY = 480"
  "iparams offsetRegion ADMaxSizeX = 640" "iparams offsetRegion ADMaxSizeY = 480"
  "trace offsetRegion = []"
  by (simp_all add: offsetRegion_def exampleDriverWith_def exampleDriver_def)

text \<open>
  Claim C3 says that a size whose sum with the offset exceeds the sensor maximum is
  clamped to the maximum minus the offset, that the clamped size is written to the
  parameter, and that the read-back shows it. The comparison of line 884 adds offset
  and size in 32-bit \<open>int\<close>. With the region at offset 100 on the sensor 640 wide, a
  write of 2147483647 to ADSizeX makes the sum wrap to a negative number: the comparison
  fails, setGeometry returns asynSuccess without writing a size (the one write of ADSizeX
  in the trace is that of writeInt32 itself, line 1557) and sends the width 2147483647 to
  the camera, where the clamp would give 540. On a camera that accepts the region and
  reports it, the read-back at the end of writeInt32 leaves 2147483647 in ADSizeX.
\<close>

theorem C3_overflowing_sum_is_not_clamped:
  "sint (iparams offsetRegion ADMaxSizeX)
     < sint (iparams offsetRegion ADMinX) + sint (2147483647 :: epicsInt32)
   \<and> iparams offsetRegion ADMaxSizeX - iparams offsetRegion ADMinX = 540
   \<and> fst (setGeometry overflowCamera (setIntegerParam ADSizeX 2147483647 offsetRegion))
       = asynSuccess
   \<and> iparams (snd (setGeometry overflowCamera (setIntegerParam ADSizeX 2147483647 offsetRegion)))
        ADSizeX = 2147483647
   \<and> trace (snd (setGeometry overflowCamera (setIntegerParam ADSizeX 2147483647 offsetRegion)))
       = [ParamWrite ADSizeX, AttrUint32Set ''BinningX'' 1, AttrUint32Set ''BinningY'' 1,
          AttrUint32Set ''RegionX'' 100, AttrUint32Set ''RegionY'' 0,
          AttrUint32Set ''Width'' 2147483647, AttrUint32Set ''Height'' 480]
   \<and> uint32Attr overflowCamera ''Width'' = (ePvErrSuccess, 2147483647)
   \<and> fst (writeInt32_geometry overflowCamera ADSizeX 2147483647 offsetRegion) = asynSuccess
   \<and> iparams (snd (writeInt32_geometry overflowCamera ADSizeX 2147483647 offsetRegion)) ADSizeX
       = 2147483647"
proof -
  let ?st = "setIntegerParam ADSizeX 2147483647 offsetRegion"
  have a: "sint (iparams offsetRegion ADMaxSizeX)
     < sint (iparams offsetRegion ADMinX) + sint (2147483647 :: epicsInt32)"
     "iparams offsetRegion ADMaxSizeX - iparams offsetRegion ADMinX = 540"
    by (simp_all add: offsetRegion_simps)
  have s: "fst (setGeometry overflowCamera ?st) = asynSuccess"
    by (simp add: setGeometry_def Let_def PvAttrUint32Set_overflowCamera)
  have i: "iparams (snd (setGeometry overflowCamera ?st)) ADSizeX = 2147483647"
    by (simp add: setGeometry_iparams offsetRegion_simps Let_def)
  have t: "trace (snd (setGeometry overflowCamera ?st))
       = [ParamWrite ADSizeX, AttrUint32Set ''BinningX'' 1, AttrUint32Set ''BinningY'' 1,
          AttrUint32Set ''RegionX'' 100, AttrUint32Set ''RegionY'' 0,
          AttrUint32Set ''Width'' 2147483647, AttrUint32Set ''Height'' 480]"
    by (simp add: setGeometry_def Let_def PvAttrUint32Set_simps PvAttrUint32Set_overflowCamera
          offsetRegion_simps idiv_def)
  have c: "uint32Attr overflowCamera ''Width'' = (ePvErrSuccess, 2147483647)"
    by (simp add: overflowCamera_def reporting_def)
  have w: "fst (writeInt32_geometry overflowCamera ADSizeX 2147483647 offsetRegion) = asynSuccess"
    by (simp add: writeInt32_geometry_def Let_def s readParameters_overflowCamera)
  have r: "iparams (snd (writeInt32_geometry overflowCamera ADSizeX 2147483647 offsetRegion)) ADSizeX
       = 2147483647"
    by (simp add: writeInt32_geometry_def Let_def readParameters_size overflowCamera_simps)
  from a s i t c w r show ?thesis by simp
qed

subsection \<open>C5: the frames-remaining counter\<close>

lemma writeInt32_ADAcquire_start:
  assumes "v \<noteq> 0"
  shows "snd (writeInt32_ADAcquire cam v st) =
           snd (readParameters cam (emit (CommandRun ''AcquisitionStart'')
                  (writeInt32_ADAcquire_prepare (setIntegerParam ADAcquire v st))))"
  using assms by (simp add: writeInt32_ADAcquire_def Let_def)

lemma writeInt32_ADAcquire_prepare_simps:
  "framesRemaining (writeInt32_ADAcquire_prepare st) =
     (if iparams st ADImageMode = ADImageSingle then 1
      else if iparams st ADImageMode = ADImageMultiple then iparams st ADNumImages
      else if iparams st ADImageMode = ADImageContinuous then - 1
      else framesRemaining st)"
  "trace (writeInt32_ADAcquire_prepare st) = trace st @ [ParamWrite ADStatus, SetShutter 1]"
  by (simp_all add: writeInt32_ADAcquire_prepare_def Let_def emit_def setIntegerParam_def)

text \<open>
  Claim C5. A write of a non-zero value to ADAcquire runs the command AcquisitionStart on
  the state that \<open>writeInt32_ADAcquire_prepare\<close> leaves, in which the frames-remaining
  counter already has the value that the call returns with: 1 in single mode, the
  parameter ADNumImages in multiple mode, -1 in continuous mode; the status parameter is
  written and the shutter opened before the command, the parameters are read after it.
  A frame decoded by the callback (status ePvErrSuccess, a bound image, the callback
  returns) takes 1 from a positive counter and leaves another counter as it is. When the
  counter is 0 after that, the callback closes the shutter and sets ADAcquire to 0 and
  ADStatus to idle; when it is not 0, the callback does not touch the shutter, ADAcquire
  or ADStatus. A negative counter stays as it is and is therefore never 0.
\<close>

theorem C5_frames_remaining:
  assumes "v \<noteq> 0"
      and "frameCallback env i s = Inr s'"
      and "Status (PvFrames s ! i) = ePvErrSuccess" and "Context1 (PvFrames s ! i) = Some img"
  shows "snd (writeInt32_ADAcquire cam v st) =
           snd (readParameters cam (emit (CommandRun ''AcquisitionStart'')
                  (writeInt32_ADAcquire_prepare (setIntegerParam ADAcquire v st))))
       \<and> framesRemaining (writeInt32_ADAcquire_prepare (setIntegerParam ADAcquire v st))
           = framesRemaining (snd (writeInt32_ADAcquire cam v st))
       \<and> trace (snd (writeInt32_ADAcquire cam v st)) =
           trace st @ [ParamWrite ADAcquire, ParamWrite ADStatus, SetShutter 1,
                       CommandRun ''AcquisitionStart''] @ readParameters_calls
       \<and> (iparams st ADImageMode = ADImageSingle
            \<longrightarrow> framesRemaining (snd (writeInt32_ADAcquire cam v st)) = 1)
       \<and> (iparams st ADImageMode = ADImageMultiple
            \<longrightarrow> framesRemaining (snd (writeInt32_ADAcquire cam v st)) = iparams st ADNumImages)
       \<and> (iparams st ADImageMode = ADImageContinuous
            \<longrightarrow> framesRemaining (snd (writeInt32_ADAcquire cam v st)) = - 1)
       \<and> framesRemaining s' = (if 0 < sint (framesRemaining s) then framesRemaining s - 1
                               else framesRemaining s)
       \<and> (framesRemaining s' = 0
            \<longrightarrow> SetShutter 0 \<in> set (drop (length (trace s)) (trace s'))
              \<and> iparams s' ADAcquire = 0 \<and> iparams s' ADStatus = ADStatusIdle)
       \<and> (framesRemaining s' \<noteq> 0
            \<longrightarrow> (\<forall>x. SetShutter x \<notin> set (drop (length (trace s)) (trace s')))
              \<and> iparams s' ADAcquire = iparams s ADAcquire
              \<and> iparams s' ADStatus = iparams s ADStatus)
       \<and> (sint (framesRemaining s) < 0 \<longrightarrow> framesRemaining s' = framesRemaining s
              \<and> framesRemaining s' \<noteq> 0)"
proof -
  note w = writeInt32_ADAcquire_start[OF assms(1), of cam st]
  have fr: "framesRemaining (snd (writeInt32_ADAcquire cam v st)) =
     (if iparams st ADImageMode = ADImageSingle then 1
      else if iparams st ADImageMode = ADImageMultiple then iparams st ADNumImages
      else if iparams st ADImageMode = ADImageContinuous then - 1
      else framesRemaining st)"
    unfolding w
    by (simp add: readParameters_framesRemaining emit_def writeInt32_ADAcquire_prepare_simps
          setIntegerParam_def)
  have fp: "framesRemaining (writeInt32_ADAcquire_prepare (setIntegerParam ADAcquire v st))
           = framesRemaining (snd (writeInt32_ADAcquire cam v st))"
    unfolding fr by (simp add: writeInt32_ADAcquire_prepare_simps setIntegerParam_def)
  have tr: "trace (snd (writeInt32_ADAcquire cam v st)) =
           trace st @ [ParamWrite ADAcquire, ParamWrite ADStatus, SetShutter 1,
                       CommandRun ''AcquisitionStart''] @ readParameters_calls"
    unfolding w
    by (simp add: readParameters_def readParameters_run_trace readParameters_calls_def emit_def
          writeInt32_ADAcquire_prepare_simps setIntegerParam_def)
  from frameCallback_Inr_good[OF assms(2-4)] obtain s1 where
    g: "frameCallback_good env i (PvFrames s ! i) img (emit Lock s) = Inr s1"
    and s': "s' = frameCallback_finish i s1" by blast
  from frameCallback_good_Inr[OF g] obtain img2 cm p1 evs a where
    fmt: "frameCallback_format (fixBayerPattern (PvFrames s ! i)) (iparams s ADBinX)
            (iparams s ADBinY) (iparams s PSBayerConvert) (maxFrameSize s)
            (img\<lparr>uniqueId := of_nat (FrameCount (PvFrames s ! i)), epicsTS := currentTime env\<rparr>)
            (pool s) = Inr (img2, cm, p1, evs)"
    and f1: "framesRemaining s1 = (if 0 < sint (framesRemaining s) then framesRemaining s - 1
                               else framesRemaining s)"
    and t1: "trace s1 = trace s @ [Lock] @ evs
          @ (if iparams s NDArrayCallbacks \<noteq> 0 then [DoCallbacksGenericPointer a] else [])
          @ (if framesRemaining s1 = 0 then [SetShutter 0, ParamWrite ADAcquire, ParamWrite ADStatus] else [])
          @ [ParamWrite NDArrayCounter] @ (case pArrays0 s of Some old \<Rightarrow> [Release (addr old)] | None \<Rightarrow> [])"
    and i1: "iparams s1 = (if framesRemaining s1 = 0
               then (iparams s)(ADAcquire := 0, ADStatus := ADStatusIdle) else iparams s)
           (NDArrayCounter := iparams s NDArrayCounter + 1)"
    by auto
  have ns: "\<forall>x. SetShutter x \<notin> set evs" using frameCallback_format_pool[OF fmt] by simp
  have fs: "framesRemaining s' = framesRemaining s1" "iparams s' = iparams s1"
    unfolding s' by (simp_all add: frameCallback_finish_simps)
  have new: "drop (length (trace s)) (trace s') = [Lock] @ evs
          @ (if iparams s NDArrayCallbacks \<noteq> 0 then [DoCallbacksGenericPointer a] else [])
          @ (if framesRemaining s' = 0 then [SetShutter 0, ParamWrite ADAcquire, ParamWrite ADStatus] else [])
          @ [ParamWrite NDArrayCounter] @ (case pArrays0 s of Some old \<Rightarrow> [Release (addr old)] | None \<Rightarrow> [])
          @ [CallParamCallbacks, CaptureQueueFrame i, Unlock]"
    unfolding s' by (simp add: frameCallback_finish_simps t1)
  have b1: "framesRemaining s' = (if 0 < sint (framesRemaining s) then framesRemaining s - 1
                               else framesRemaining s)"
    using f1 fs by simp
  have b2: "framesRemaining s' = 0
            \<longrightarrow> SetShutter 0 \<in> set (drop (length (trace s)) (trace s'))
              \<and> iparams s' ADAcquire = 0 \<and> iparams s' ADStatus = ADStatusIdle"
    unfolding new using fs i1 by simp
  have b3: "framesRemaining s' \<noteq> 0
            \<longrightarrow> (\<forall>x. SetShutter x \<notin> set (drop (length (trace s)) (trace s')))
              \<and> iparams s' ADAcquire = iparams s ADAcquire
              \<and> iparams s' ADStatus = iparams s ADStatus"
    unfolding new using fs i1 ns by (auto split: option.splits)
  have b4: "sint (framesRemaining s) < 0 \<longrightarrow> framesRemaining s' = framesRemaining s
              \<and> framesRemaining s' \<noteq> 0"
    unfolding b1 by auto
  show ?thesis using w fp tr fr b1 b2 b3 b4 by simp
qed

theorem C5_frames_remaining_witness:
  "(1 :: epicsInt32) \<noteq> 0
   \<and> iparams (exampleDriver (exampleFrame ePvErrSuccess ePvFmtMono8)) ADImageMode = ADImageMultiple
   \<and> iparams (exampleDriver (exampleFrame ePvErrSuccess ePvFmtMono8)) ADNumImages = 3
   \<and> framesRemaining (snd (writeInt32_ADAcquire (exampleCamera [] None) 1
         (exampleDriver (exampleFrame ePvErrSuccess ePvFmtMono8)))) = 3
   \<and> Status (PvFrames ((exampleDriver (exampleFrame ePvErrSuccess ePvFmtMono8))
                          \<lparr>framesRemaining := 1\<rparr>) ! 0) = ePvErrSuccess
   \<and> (\<exists>s'. frameCallback exampleEnv 0
               ((exampleDriver (exampleFrame ePvErrSuccess ePvFmtMono8))\<lparr>framesRemaining := 1\<rparr>)
             = Inr s'
          \<and> framesRemaining s' = 0 \<and> SetShutter 0 \<in> set (trace s')
          \<and> iparams s' ADAcquire = 0 \<and> iparams s' ADStatus = ADStatusIdle)"
proof -
  let ?st = "exampleDriver (exampleFrame ePvErrSuccess ePvFmtMono8)"
  let ?s = "?st\<lparr>framesRemaining := 1\<rparr>"
  obtain s' where r: "frameCallback exampleEnv 0 ?s = Inr s'"
    by (simp add: frameCallback_decode_defs example_defs) (simp add: frameCallback_step_defs)
  have h: "Status (PvFrames ?s ! 0) = ePvErrSuccess"
      "Context1 (PvFrames ?s ! 0) = Some (blankImage 100)"
    by (simp_all add: exampleDriver_def exampleFrame_def)
  have p: "iparams ?st ADImageMode = ADImageMultiple" "iparams ?st ADNumImages = 3"
      "framesRemaining ?s = 1" "trace ?s = []"
    by (simp_all add: exampleDriver_def)
  have v: "(1 :: epicsInt32) \<noteq> 0" by simp
  note c = C5_frames_remaining [OF v r h, of "exampleCamera [] None" ?st]
  from c have "iparams ?st ADImageMode = ADImageMultiple
      \<longrightarrow> framesRemaining (snd (writeInt32_ADAcquire (exampleCamera [] None) 1 ?st))
            = iparams ?st ADNumImages"
    by blast
  then have a: "framesRemaining (snd (writeInt32_ADAcquire (exampleCamera [] None) 1 ?st)) = 3"
    by (simp add: p)
  from c have "framesRemaining s' = (if 0 < sint (framesRemaining ?s) then framesRemaining ?s - 1
                               else framesRemaining ?s)"
    by blast
  then have z: "framesRemaining s' = 0" by (simp add: p)
  from c have "framesRemaining s' = 0
            \<longrightarrow> SetShutter 0 \<in> set (drop (length (trace ?s)) (trace s'))
              \<and> iparams s' ADAcquire = 0 \<and> iparams s' ADStatus = ADStatusIdle"
    by blast
  with z have "SetShutter 0 \<in> set (trace s') \<and> iparams s' ADAcquire = 0
      \<and> iparams s' ADStatus = ADStatusIdle"
    by (simp add: p)
  with a z have "framesRemaining (snd (writeInt32_ADAcquire (exampleCamera [] None) 1 ?st)) = 3
      \<and> framesRemaining s' = 0 \<and> SetShutter 0 \<in> set (trace s')
      \<and> iparams s' ADAcquire = 0 \<and> iparams s' ADStatus = ADStatusIdle"
    by simp
  with r h(1) p(1,2) show ?thesis by simp
qed

end
